theory Spec2Isabelle
  imports Complex_Main "HOL-Library.Log_Nat"
begin

section \<open>JavaScript values\<close>

text \<open>
  The sketch runtime of \<^verbatim>\<open>src/core/core.js\<close> and the drawing primitives of
  \<^verbatim>\<open>src/shape/2d_primitives.js\<close> are embedded as functions on an explicit state.

  A JavaScript number is a finite rational, an infinity or NaN. The arithmetic
  operations compute exactly on finite operands, and \<open>to_double\<close> below rounds a
  result to the nearest double. The increment of the frame counter goes through it: the
  counter is the one number that grows with the length of a run, and from \<open>2 ^ 53\<close> on
  \<^verbatim>\<open>x + 1\<close> is no longer exact. The sign of zero is not modelled. Division follows
  IEEE 754 where the divisor is zero or an operand is not finite, since that is what
  \<^verbatim>\<open>1000.0/(now - last)\<close> and \<^verbatim>\<open>1000/this._targetFrameRate\<close> evaluate to.
\<close>

datatype jsnum = Fin rat | PInf | NInf | NaN

fun js_neg :: "jsnum \<Rightarrow> jsnum" where
  "js_neg (Fin a) = Fin (- a)"
| "js_neg PInf = NInf"
| "js_neg NInf = PInf"
| "js_neg NaN = NaN"

fun js_add :: "jsnum \<Rightarrow> jsnum \<Rightarrow> jsnum" where
  "js_add (Fin a) (Fin b) = Fin (a + b)"
| "js_add NaN y = NaN"
| "js_add x NaN = NaN"
| "js_add PInf NInf = NaN"
| "js_add NInf PInf = NaN"
| "js_add PInf y = PInf"
| "js_add NInf y = NInf"
| "js_add (Fin a) PInf = PInf"
| "js_add (Fin a) NInf = NInf"

definition js_sub :: "jsnum \<Rightarrow> jsnum \<Rightarrow> jsnum" where
  "js_sub x y = js_add x (js_neg y)"

fun js_div :: "jsnum \<Rightarrow> jsnum \<Rightarrow> jsnum" where
  "js_div (Fin a) (Fin b) =
     (if b = 0 then (if a = 0 then NaN else if 0 < a then PInf else NInf)
      else Fin (a / b))"
| "js_div NaN y = NaN"
| "js_div x NaN = NaN"
| "js_div (Fin a) PInf = Fin 0"
| "js_div (Fin a) NInf = Fin 0"
| "js_div PInf (Fin b) = (if 0 \<le> b then PInf else NInf)"
| "js_div NInf (Fin b) = (if 0 \<le> b then NInf else PInf)"
| "js_div PInf y = NaN"
| "js_div NInf y = NaN"

fun finite_num :: "jsnum \<Rightarrow> bool" where
  "finite_num (Fin a) = True"
| "finite_num x = False"

fun js_mul :: "jsnum \<Rightarrow> jsnum \<Rightarrow> jsnum" where
  "js_mul (Fin a) (Fin b) = Fin (a * b)"
| "js_mul NaN y = NaN"
| "js_mul x NaN = NaN"
| "js_mul PInf (Fin b) = (if b = 0 then NaN else if 0 < b then PInf else NInf)"
| "js_mul NInf (Fin b) = (if b = 0 then NaN else if 0 < b then NInf else PInf)"
| "js_mul (Fin a) PInf = (if a = 0 then NaN else if 0 < a then PInf else NInf)"
| "js_mul (Fin a) NInf = (if a = 0 then NaN else if 0 < a then NInf else PInf)"
| "js_mul PInf PInf = PInf"
| "js_mul PInf NInf = NInf"
| "js_mul NInf PInf = NInf"
| "js_mul NInf NInf = PInf"

text \<open>\<^verbatim>\<open>x > y\<close>: false as soon as an operand is NaN.\<close>

fun js_gt :: "jsnum \<Rightarrow> jsnum \<Rightarrow> bool" where
  "js_gt (Fin a) (Fin b) = (b < a)"
| "js_gt NaN y = False"
| "js_gt x NaN = False"
| "js_gt PInf PInf = False"
| "js_gt PInf y = True"
| "js_gt NInf y = False"
| "js_gt (Fin a) PInf = False"
| "js_gt (Fin a) NInf = True"

text \<open>\<^verbatim>\<open>Math.round\<close>: the nearest integer, halves upwards.\<close>

fun js_round :: "jsnum \<Rightarrow> jsnum" where
  "js_round (Fin a) = Fin (of_int \<lfloor>a + 1 / 2\<rfloor>)"
| "js_round x = x"

text \<open>
  The double nearest to a rational (IEEE 754 binary64, round to nearest, ties to the
  even significand). \<open>ilog2 a\<close> is the binary exponent of a positive \<open>a\<close>, the
  \<open>e\<close> with \<open>2 ^ e \<le> a < 2 ^ (e + 1)\<close>, found from the bit lengths of numerator
  and denominator; \<open>ulp a\<close> is the distance between neighbouring doubles around
  \<open>a\<close>: 52 binary places below the exponent, and \<open>2 ^ - 1074\<close> in the subnormal
  range; a magnitude that rounds to \<open>2 ^ 1024\<close> or more overflows to an infinity.
\<close>

definition round_even :: "rat \<Rightarrow> int" where
  "round_even x =
     (let f = \<lfloor>x\<rfloor>; d = x - of_int f
      in if d < 1 / 2 then f else if 1 / 2 < d then f + 1 else if even f then f else f + 1)"

definition ilog2 :: "rat \<Rightarrow> int" where
  "ilog2 a =
     (let e = bitlen (fst (quotient_of a)) - bitlen (snd (quotient_of a))
      in if power_int 2 e \<le> a then e else e - 1)"

definition ulp :: "rat \<Rightarrow> rat" where
  "ulp a = power_int 2 (max (ilog2 a) (- 1022) - 52)"

fun to_double :: "jsnum \<Rightarrow> jsnum" where
  "to_double (Fin q) =
     (let r = of_int (round_even (\<bar>q\<bar> / ulp \<bar>q\<bar>)) * ulp \<bar>q\<bar>
      in if 2 ^ 1024 \<le> r then (if 0 < q then PInf else NInf)
         else Fin (if 0 < q then r else - r))"
| "to_double x = x"

section \<open>Property names\<close>

text \<open>
  The names of the properties that the two source files read or write on the instance,
  on the window and on \<^verbatim>\<open>settings\<close> have a constructor each; every other name is
  \<open>Other\<close> with its spelling. A name that has a constructor is always written with it.
  \<open>spelling\<close> gives the JavaScript identifier: in particular \<open>PreloadCount\<close> is
  \<^verbatim>\<open>_preloadCount\<close> and \<open>PreloadDashCount\<close> is \<^verbatim>\<open>'preload-count'\<close>, two
  different properties.
\<close>

datatype loader = LoadJSON | LoadStrings | LoadXML | LoadImage

datatype input_event =
    Mousemove | Mousedown | Mouseup | Mouseclick | Mousewheel
  | Keydown | Keyup | Keypress
  | Touchstart | Touchmove | Touchend

datatype pname =
    FrameCount
  | PreloadCount
  | PreloadDashCount
  | IsGlobal
  | FrameRate
  | LastFrameTime
  | TargetFrameRate
  | UpdateInterval
  | CurElement
  | Preload
  | Setup
  | Draw
  | Loop
  | EllipseMode
  | RectMode
  | Loader loader
  | On input_event
  | Other string

fun loader_name :: "loader \<Rightarrow> string" where
  "loader_name LoadJSON = ''loadJSON''"
| "loader_name LoadStrings = ''loadStrings''"
| "loader_name LoadXML = ''loadXML''"
| "loader_name LoadImage = ''loadImage''"

fun event_name :: "input_event \<Rightarrow> string" where
  "event_name Mousemove = ''mousemove''"
| "event_name Mousedown = ''mousedown''"
| "event_name Mouseup = ''mouseup''"
| "event_name Mouseclick = ''mouseclick''"
| "event_name Mousewheel = ''mousewheel''"
| "event_name Keydown = ''keydown''"
| "event_name Keyup = ''keyup''"
| "event_name Keypress = ''keypress''"
| "event_name Touchstart = ''touchstart''"
| "event_name Touchmove = ''touchmove''"
| "event_name Touchend = ''touchend''"

fun spelling :: "pname \<Rightarrow> string" where
  "spelling FrameCount = ''frameCount''"
| "spelling PreloadCount = ''_preloadCount''"
| "spelling PreloadDashCount = ''preload-count''"
| "spelling IsGlobal = ''_isGlobal''"
| "spelling FrameRate = ''_frameRate''"
| "spelling LastFrameTime = ''_lastFrameTime''"
| "spelling TargetFrameRate = ''_targetFrameRate''"
| "spelling UpdateInterval = ''updateInterval''"
| "spelling CurElement = ''curElement''"
| "spelling Preload = ''preload''"
| "spelling Setup = ''setup''"
| "spelling Draw = ''draw''"
| "spelling Loop = ''loop''"
| "spelling EllipseMode = ''ellipseMode''"
| "spelling RectMode = ''rectMode''"
| "spelling (Loader l) = loader_name l"
| "spelling (On ev) = ''on'' @ event_name ev"
| "spelling (Other s) = s"

fun loader_of :: "pname \<Rightarrow> loader option" where
  "loader_of (Loader f) = Some f"
| "loader_of k = None"

fun is_other :: "pname \<Rightarrow> bool" where
  "is_other (Other s) = True"
| "is_other k = False"

section \<open>Values\<close>

text \<open>
  User code is outside the repository. A user callback (\<^verbatim>\<open>preload\<close>,
  \<^verbatim>\<open>setup\<close>, \<^verbatim>\<open>draw\<close>, an input handler) is modelled by the sequence of
  things it does to the runtime: call an asset loader through the sketch context, switch
  \<^verbatim>\<open>settings.loop\<close>, store a new \<^verbatim>\<open>_targetFrameRate\<close> (through
  \<^verbatim>\<open>_setProperty\<close>), call \<^verbatim>\<open>_runFrames\<close> (what a frame-rate setter of
  the library does after storing the rate), or throw.
\<close>

datatype action =
    Load loader string
  | SetLoop bool
  | SetTargetFrameRate jsnum
  | RunFrames
  | Throw

text \<open>
  Function values: a user function, one of the four closures that \<^verbatim>\<open>_start\<close>
  installs over the loaders (\<open>Wrapper\<close>), a method of \<^verbatim>\<open>p5.prototype\<close>
  (\<open>Native\<close>), or such a method bound to the instance (\<open>Bound\<close>).
\<close>

datatype fn = User "action list" | Wrapper loader | Native pname | Bound pname

datatype jsval =
    VUndefined
  | VNull
  | VBool bool
  | VNum jsnum
  | VStr string
  | VFun fn
  | VObj string

type_synonym obj = "pname \<rightharpoonup> jsval"

fun truthy :: "jsval \<Rightarrow> bool" where
  "truthy VUndefined = False"
| "truthy VNull = False"
| "truthy (VBool b) = b"
| "truthy (VNum n) = (n \<noteq> Fin 0 \<and> n \<noteq> NaN)"
| "truthy (VStr s) = (s \<noteq> [])"
| "truthy (VFun f) = True"
| "truthy (VObj r) = True"

text \<open>\<^verbatim>\<open>a || b\<close>\<close>

definition js_or :: "jsval \<Rightarrow> jsval \<Rightarrow> jsval" where
  "js_or a b = (if truthy a then a else b)"

text \<open>\<^verbatim>\<open>typeof v === 'function'\<close>\<close>

fun is_function :: "jsval \<Rightarrow> bool" where
  "is_function (VFun f) = True"
| "is_function v = False"

text \<open>\<^verbatim>\<open>a === b\<close>: NaN equals nothing; objects and functions by identity.\<close>

definition strict_eq :: "jsval \<Rightarrow> jsval \<Rightarrow> bool" where
  "strict_eq a b = (a = b \<and> a \<noteq> VNum NaN)"

text \<open>
  The numeric value of an operand. The runtime only ever stores numbers in the
  properties it does arithmetic on; the conversion of strings and objects is not
  modelled (they read as NaN).
\<close>

fun num_of :: "jsval \<Rightarrow> jsnum" where
  "num_of (VNum n) = n"
| "num_of VNull = Fin 0"
| "num_of (VBool b) = Fin (if b then 1 else 0)"
| "num_of v = NaN"

definition get_prop :: "obj \<Rightarrow> pname \<Rightarrow> jsval" where
  "get_prop ob n = (case ob n of Some v \<Rightarrow> v | None \<Rightarrow> VUndefined)"

text \<open>Assigning a list of properties in order; a later assignment wins.\<close>

definition assign_all :: "(pname \<times> jsval) list \<Rightarrow> obj \<Rightarrow> obj" where
  "assign_all kvs ob = fold (\<lambda>kv m. m(fst kv \<mapsto> snd kv)) kvs ob"

text \<open>\<^verbatim>\<open>dst[k] = src[k]\<close> for each listed own property of \<open>src\<close>.\<close>

definition copy_props :: "pname list \<Rightarrow> obj \<Rightarrow> obj \<Rightarrow> obj" where
  "copy_props ks src dst = fold (\<lambda>k m. m(k \<mapsto> get_prop src k)) ks dst"

section \<open>The state of a sketch\<close>

datatype error = TypeError | UserError | Unmodelled

text \<open>
  What the host and the user can observe of a run: a user callback is entered, an
  exception leaves an event handler uncaught.
\<close>

datatype obs = Invoked pname | Uncaught error

text \<open>
  An outstanding asset request: the loader, the path, and whether its completion
  handler is the closure that \<^verbatim>\<open>_preload\<close> passed to the loader.
\<close>

datatype request = Request loader string bool

fun barrier_request :: "request \<Rightarrow> bool" where
  "barrier_request (Request f p b) = b"

datatype canvas_op =
    BeginPath
  | ClosePath
  | MoveTo jsnum jsnum
  | LineTo jsnum jsnum
  | BezierCurveTo jsnum jsnum jsnum jsnum jsnum jsnum
  | Arc5 jsnum jsnum jsnum jsnum jsnum
  | Arc6 jsnum jsnum jsnum jsnum jsnum bool
  | RectPath jsnum jsnum jsnum jsnum
  | FillRect jsnum jsnum jsnum jsnum
  | Scale jsnum jsnum
  | Stroke
  | Fill
  | SetTransform jsnum jsnum jsnum jsnum jsnum jsnum
  | SetFillStyle string

record canvas_ctx =
  strokeStyle :: string
  fillStyle :: string
  lineWidth :: jsnum
  ops :: "canvas_op list"

text \<open>
  The state: the own properties of the p5 instance, \<^verbatim>\<open>p5.prototype\<close>, the
  window object, the \<^verbatim>\<open>settings\<close> object (shared by reference between the
  instance and, in global mode, the window), the 2D context of the current element, and
  the host's side of the event loop: live interval timers (handle and period), pending
  draw timeouts (their delays; their handles are never stored by the runtime),
  outstanding asset requests, the input events that have a listener, whether
  \<^verbatim>\<open>_start\<close> waits for the window's load event, and the trace of observations.
\<close>

record rt =
  inst :: obj
  proto :: obj
  win :: obj
  settings :: obj
  ctx :: canvas_ctx
  intervals :: "(nat \<times> jsnum) list"
  timeouts :: "jsnum list"
  next_handle :: nat
  pending :: "request list"
  listeners :: "input_event list"
  awaiting_load :: bool
  trace :: "obs list"

text \<open>\<^verbatim>\<open>this.n\<close>: an own property, else the prototype's.\<close>

definition this_prop :: "rt \<Rightarrow> pname \<Rightarrow> jsval" where
  "this_prop s n = (case inst s n of Some v \<Rightarrow> v | None \<Rightarrow> get_prop (proto s) n)"

text \<open>\<^verbatim>\<open>var context = this._isGlobal ? window : this;\<close> then \<^verbatim>\<open>context.n\<close>\<close>

definition is_global :: "rt \<Rightarrow> bool" where
  "is_global s = truthy (this_prop s IsGlobal)"

definition context_prop :: "rt \<Rightarrow> pname \<Rightarrow> jsval" where
  "context_prop s n = (if is_global s then get_prop (win s) n else this_prop s n)"

definition context_set :: "bool \<Rightarrow> pname \<Rightarrow> jsval \<Rightarrow> rt \<Rightarrow> rt" where
  "context_set g n v s =
     (if g then s\<lparr>win := (win s)(n \<mapsto> v)\<rparr> else s\<lparr>inst := (inst s)(n \<mapsto> v)\<rparr>)"

section \<open>The property mirror\<close>

text \<open>
  \<^verbatim>\<open>
  p5.prototype._setProperty = function(prop, value) {
    this[prop] = value;
    if (this._isGlobal) {
      window[prop] = value;
    }
  };
  \<close>
  The flag is read after the assignment.
\<close>

definition p5_setProperty :: "pname \<Rightarrow> jsval \<Rightarrow> rt \<Rightarrow> rt" where
  "p5_setProperty p v s =
     (let s1 = s\<lparr>inst := (inst s)(p \<mapsto> v)\<rparr>
      in if is_global s1 then s1\<lparr>win := (win s1)(p \<mapsto> v)\<rparr> else s1)"

section \<open>The host: timers, the canvas, asset loaders\<close>

text \<open>
  \<^verbatim>\<open>setInterval\<close> and \<^verbatim>\<open>setTimeout\<close> hand out handles from one counter that
  starts at 1. The only interval callback in the source is the counter ticker of
  \<^verbatim>\<open>_runFrames\<close>, the only timeout callback is the one of \<^verbatim>\<open>_draw\<close>.
\<close>

definition setInterval :: "jsnum \<Rightarrow> rt \<Rightarrow> nat \<times> rt" where
  "setInterval d s =
     (next_handle s,
      s\<lparr>intervals := intervals s @ [(next_handle s, d)], next_handle := Suc (next_handle s)\<rparr>)"

definition clearInterval :: "jsval \<Rightarrow> rt \<Rightarrow> rt" where
  "clearInterval h s =
     s\<lparr>intervals := filter (\<lambda>t. VNum (Fin (of_nat (fst t))) \<noteq> h) (intervals s)\<rparr>"

definition setTimeout :: "jsnum \<Rightarrow> rt \<Rightarrow> rt" where
  "setTimeout d s = s\<lparr>timeouts := timeouts s @ [d], next_handle := Suc (next_handle s)\<rparr>"

definition fresh_ctx :: canvas_ctx where
  "fresh_ctx = \<lparr>strokeStyle = ''#000000'', fillStyle = ''#000000'', lineWidth = Fin 1, ops = []\<rparr>"

text \<open>
  Modelled from the spec: \<^verbatim>\<open>createCanvas\<close> is defined in the canvas module, which
  is not among the sources. Section 4.4 of the specification: the transition at host
  readiness "creates the default rendering surface"; section 6:
  \<^verbatim>\<open>createSurface(width, height, replaceExisting) -> Surface\<close>. The model gives the
  instance a current element with a fresh 2D context.
\<close>

definition createCanvas :: "rt \<Rightarrow> rt" where
  "createCanvas s = s\<lparr>inst := (inst s)(CurElement \<mapsto> VObj ''canvas''), ctx := fresh_ctx\<rparr>"

definition loaders :: "loader list" where
  "loaders = [LoadJSON, LoadStrings, LoadXML, LoadImage]"

text \<open>
  Modelled from the spec: the loaders \<^verbatim>\<open>p5.prototype.loadJSON\<close>,
  \<^verbatim>\<open>loadStrings\<close>, \<^verbatim>\<open>loadXML\<close> and \<^verbatim>\<open>loadImage\<close> are defined in
  modules that are not among the sources. Section 6 of the specification: one function
  per asset kind, "taking a completion callback"; section 5: work resumes later via "an
  asynchronous I/O completion callback firing". The model of a loader call registers an
  outstanding request; the request's completion is an event of its own.
\<close>

definition original_loader :: "loader \<Rightarrow> string \<Rightarrow> bool \<Rightarrow> rt \<Rightarrow> rt" where
  "original_loader f path b s = s\<lparr>pending := pending s @ [Request f path b]\<rparr>"

section \<open>The preload barrier and the frame scheduler\<close>

text \<open>
  \<^verbatim>\<open>
  p5.prototype._preload = function (func, path) {
    var context = this._isGlobal ? window : this;
    context._setProperty('preload-count', context._preloadCount + 1);
    return p5.prototype[func].call(context, path, function (resp) { ... });
  };
  \<close>
  In global mode \<^verbatim>\<open>window._setProperty\<close> is the prototype's method bound to the
  instance, so in both modes the call is \<open>p5_setProperty\<close> on the instance. Calls of
  the runtime's own underscore methods are modelled as calls of their embeddings: user
  code is taken not to overwrite them.
\<close>

definition p5_preload :: "loader \<Rightarrow> string \<Rightarrow> rt \<Rightarrow> error option \<times> rt" where
  "p5_preload func path s =
     (let s1 = p5_setProperty PreloadDashCount
                 (VNum (js_add (num_of (context_prop s PreloadCount)) (Fin 1))) s
      in if is_function (get_prop (proto s1) (Loader func))
         then (None, original_loader func path True s1)
         else (Some TypeError, s1))"

text \<open>
  \<^verbatim>\<open>
  p5.prototype._runFrames = function() {
    if (this.updateInterval) {
      clearInterval(this.updateInterval);
    }
    this.updateInterval = setInterval(function(){
      this._setProperty('frameCount', this.frameCount + 1);
    }.bind(this), 1000/this._targetFrameRate);
  };
  \<close>
\<close>

definition frame_delay :: "rt \<Rightarrow> jsnum" where
  "frame_delay s = js_div (Fin 1000) (num_of (this_prop s TargetFrameRate))"

definition p5_runFrames :: "rt \<Rightarrow> rt" where
  "p5_runFrames s =
     (let s1 = (if truthy (this_prop s UpdateInterval)
                then clearInterval (this_prop s UpdateInterval) s else s);
          hs = setInterval (frame_delay s1) s1
      in (snd hs)\<lparr>inst := (inst (snd hs))(UpdateInterval \<mapsto> VNum (Fin (of_nat (fst hs))))\<rparr>)"

text \<open>
  The interval callback of \<^verbatim>\<open>_runFrames\<close>. The sum
  \<^verbatim>\<open>this.frameCount + 1\<close> is the double nearest to the exact sum.
\<close>

definition ticker :: "rt \<Rightarrow> rt" where
  "ticker s =
     p5_setProperty FrameCount
       (VNum (to_double (js_add (num_of (this_prop s FrameCount)) (Fin 1)))) s"

section \<open>User callbacks\<close>

text \<open>
  A loader called by user code through the sketch context: the wrapper installed by
  \<^verbatim>\<open>_start\<close> calls \<^verbatim>\<open>context._preload(name, path)\<close>; the prototype's own
  loader (bound or not) registers a request whose completion runs no code of the
  runtime.
\<close>

fun call_loader :: "jsval \<Rightarrow> string \<Rightarrow> rt \<Rightarrow> error option \<times> rt" where
  "call_loader (VFun (Wrapper g)) path s = p5_preload g path s"
| "call_loader (VFun (Native k)) path s =
     (case loader_of k of
        Some g \<Rightarrow> (None, original_loader g path False s)
      | None \<Rightarrow> (Some Unmodelled, s))"
| "call_loader (VFun (Bound k)) path s =
     (case loader_of k of
        Some g \<Rightarrow> (None, original_loader g path False s)
      | None \<Rightarrow> (Some Unmodelled, s))"
| "call_loader (VFun (User as)) path s = (Some Unmodelled, s)"
| "call_loader v path s = (Some TypeError, s)"

fun exec_action :: "action \<Rightarrow> rt \<Rightarrow> error option \<times> rt" where
  "exec_action (Load f path) s = call_loader (context_prop s (Loader f)) path s"
| "exec_action (SetLoop b) s = (None, s\<lparr>settings := (settings s)(Loop \<mapsto> VBool b)\<rparr>)"
| "exec_action (SetTargetFrameRate r) s = (None, p5_setProperty TargetFrameRate (VNum r) s)"
| "exec_action RunFrames s = (None, p5_runFrames s)"
| "exec_action Throw s = (Some UserError, s)"

text \<open>An exception ends the callback; what it did before stays done.\<close>

fun run_actions :: "action list \<Rightarrow> rt \<Rightarrow> error option \<times> rt" where
  "run_actions [] s = (None, s)"
| "run_actions (a # as) s =
     (case exec_action a s of
        (None, s') \<Rightarrow> run_actions as s'
      | (Some e, s') \<Rightarrow> (Some e, s'))"

text \<open>
  Calling a value as a function with the name it was looked up under. Calling what is
  not a function is a TypeError; library functions in a callback's place are not
  modelled.
\<close>

fun call_user :: "pname \<Rightarrow> jsval \<Rightarrow> rt \<Rightarrow> error option \<times> rt" where
  "call_user name (VFun (User as)) s = run_actions as (s\<lparr>trace := trace s @ [Invoked name]\<rparr>)"
| "call_user name (VFun f) s = (Some Unmodelled, s)"
| "call_user name v s = (Some TypeError, s)"

text \<open>\<^verbatim>\<open>if (typeof f === 'function') { f(); }\<close>\<close>

definition call_if_function :: "pname \<Rightarrow> jsval \<Rightarrow> rt \<Rightarrow> error option \<times> rt" where
  "call_if_function name v s = (if is_function v then call_user name v s else (None, s))"

definition andthen ::
  "(rt \<Rightarrow> error option \<times> rt) \<Rightarrow> (rt \<Rightarrow> error option \<times> rt) \<Rightarrow> rt \<Rightarrow> error option \<times> rt" where
  "andthen f g s = (case f s of (None, s') \<Rightarrow> g s' | (Some e, s') \<Rightarrow> (Some e, s'))"

section \<open>The lifecycle\<close>

text \<open>
  \<^verbatim>\<open>
  p5.prototype._setup = function() {
    var userSetup = this.setup || window.setup;
    if (typeof userSetup === 'function') {
      userSetup();
    }
  };
  \<close>
\<close>

definition p5_setup :: "rt \<Rightarrow> error option \<times> rt" where
  "p5_setup s =
     (let userSetup = js_or (this_prop s Setup) (get_prop (win s) Setup)
      in call_if_function Setup userSetup s)"

text \<open>\<^verbatim>\<open>this.curElement.context.setTransform(1, 0, 0, 1, 0, 0);\<close>\<close>

fun with_context :: "jsval \<Rightarrow> canvas_op list \<Rightarrow> rt \<Rightarrow> error option \<times> rt" where
  "with_context (VObj r) os s = (None, s\<lparr>ctx := (ctx s)\<lparr>ops := ops (ctx s) @ os\<rparr>\<rparr>)"
| "with_context v os s = (Some TypeError, s)"

definition reset_transform :: "rt \<Rightarrow> error option \<times> rt" where
  "reset_transform s =
     with_context (this_prop s CurElement)
       [SetTransform (Fin 1) (Fin 0) (Fin 0) (Fin 1) (Fin 0) (Fin 0)] s"

text \<open>
  \<^verbatim>\<open>
  p5.prototype._draw = function () {
    var now = new Date().getTime();
    this._frameRate = 1000.0/(now - this._lastFrameTime);
    this._lastFrameTime = now;
    var userDraw = this.draw || window.draw;
    if (this.settings.loop) {
      setTimeout(function() {
        window.requestDraw(this._draw.bind(this));
      }.bind(this), 1000 / this._targetFrameRate);
    }
    if (typeof userDraw === 'function') {
      userDraw();
    }
    this.curElement.context.setTransform(1, 0, 0, 1, 0, 0);
  };
  \<close>
  The clock reading is an argument.
\<close>

definition measure_rate :: "int \<Rightarrow> rt \<Rightarrow> rt" where
  "measure_rate now s =
     (let s1 = s\<lparr>inst := (inst s)(FrameRate \<mapsto>
                  VNum (js_div (Fin 1000)
                         (js_sub (Fin (of_int now)) (num_of (this_prop s LastFrameTime)))))\<rparr>
      in s1\<lparr>inst := (inst s1)(LastFrameTime \<mapsto> VNum (Fin (of_int now)))\<rparr>)"

definition schedule_next :: "rt \<Rightarrow> rt" where
  "schedule_next s =
     (if truthy (get_prop (settings s) Loop) then setTimeout (frame_delay s) s else s)"

definition p5_draw :: "int \<Rightarrow> rt \<Rightarrow> error option \<times> rt" where
  "p5_draw now s =
     (let s2 = measure_rate now s;
          userDraw = js_or (this_prop s2 Draw) (get_prop (win s2) Draw);
          s3 = schedule_next s2
      in andthen (call_if_function Draw userDraw) reset_transform s3)"

text \<open>
  The completion handler that \<^verbatim>\<open>_preload\<close> passes to the loader:
  \<^verbatim>\<open>
  function (resp) {
    context._setProperty('preload-count', context._preloadCount - 1);
    if (context._preloadCount === 0) {
      context._setup();
      context._runFrames();
      context._draw();
    }
  }
  \<close>
\<close>

definition begin_loop :: "int \<Rightarrow> rt \<Rightarrow> error option \<times> rt" where
  "begin_loop now s = andthen p5_setup (\<lambda>t. p5_draw now (p5_runFrames t)) s"

definition preload_done :: "int \<Rightarrow> rt \<Rightarrow> error option \<times> rt" where
  "preload_done now s =
     (let s1 = p5_setProperty PreloadDashCount
                 (VNum (js_sub (num_of (context_prop s PreloadCount)) (Fin 1))) s
      in if context_prop s1 PreloadCount = VNum (Fin 0) then begin_loop now s1
         else (None, s1))"

text \<open>
  \<^verbatim>\<open>
  p5.prototype._start = function () {
    this.createCanvas(800, 600, true);
    ...
    var userPreload = this.preload || window.preload;
    var context = this._isGlobal ? window : this;
    if (userPreload) {
      context.loadJSON = function (path) { return context._preload('loadJSON', path); };
      ... loadStrings, loadXML, loadImage ...
      userPreload();
      context.loadJSON = p5.prototype.loadJSON;
      ... loadStrings, loadXML, loadImage ...
    } else {
      this._setup();
      this._runFrames();
      this._draw();
    }
  };
  \<close>
  The lookup of \<^verbatim>\<open>_userNode\<close> in the document touches nothing else and is left out.
\<close>

definition install_wrappers :: "bool \<Rightarrow> rt \<Rightarrow> rt" where
  "install_wrappers g s = fold (\<lambda>f t. context_set g (Loader f) (VFun (Wrapper f)) t) loaders s"

definition restore_loaders :: "bool \<Rightarrow> rt \<Rightarrow> rt" where
  "restore_loaders g s =
     fold (\<lambda>f t. context_set g (Loader f) (get_prop (proto t) (Loader f)) t) loaders s"

definition p5_start :: "int \<Rightarrow> rt \<Rightarrow> error option \<times> rt" where
  "p5_start now s0 =
     (let s = createCanvas s0;
          userPreload = js_or (this_prop s Preload) (get_prop (win s) Preload);
          g = is_global s
      in if truthy userPreload
         then (case call_user Preload userPreload (install_wrappers g s) of
                 (None, s') \<Rightarrow> (None, restore_loaders g s')
               | (Some e, s') \<Rightarrow> (Some e, s'))
         else begin_loop now s)"

section \<open>Construction\<close>

text \<open>
  What the constructor reads from its environment: the screen, the clock, whether the
  document is already complete, the properties the page has put on the window (in global
  mode the user's \<^verbatim>\<open>preload\<close>, \<^verbatim>\<open>setup\<close> and \<^verbatim>\<open>draw\<close>), and the
  \<^verbatim>\<open>constants\<close> module, which is not among the sources and is a parameter.
\<close>

record host =
  screen_width :: rat
  screen_height :: rat
  clock :: int
  ready :: bool
  globals :: "(pname \<times> jsval) list"
  constants :: "(pname \<times> jsval) list"

definition const_val :: "host \<Rightarrow> string \<Rightarrow> jsval" where
  "const_val h n = get_prop (assign_all (constants h) Map.empty) (Other n)"

text \<open>
  The methods of \<^verbatim>\<open>p5.prototype\<close> that the two source files define or call.
\<close>

definition p5_methods :: "pname list" where
  "p5_methods =
     [Other ''_start'', Other ''_preload'', Other ''_setup'', Other ''_draw'',
      Other ''_runFrames'', Other ''_applyDefaults'', Other ''_setProperty'',
      Other ''arc'', Other ''ellipse'', Other ''line'', Other ''point'', Other ''quad'',
      Other ''rect'', Other ''triangle'', Other ''createCanvas'',
      Loader LoadJSON, Loader LoadStrings, Loader LoadXML, Loader LoadImage]"

definition settings0 :: "host \<Rightarrow> (pname \<times> jsval) list" where
  "settings0 h =
     [(Loop, VBool True), (Other ''fill'', VBool False),
      (Other ''updateInterval'', VNum (Fin 0)),
      (RectMode, const_val h ''CORNER''), (Other ''imageMode'', const_val h ''CORNER''),
      (EllipseMode, const_val h ''CENTER''), (Other ''colorMode'', const_val h ''RGB''),
      (Other ''mousePressed'', VBool False), (Other ''angleMode'', const_val h ''RADIANS'')]"

text \<open>
  The assignments \<^verbatim>\<open>this.x = ...\<close> of the constructor, in order. (Inside
  \<^verbatim>\<open>settings\<close> the name \<^verbatim>\<open>updateInterval\<close> is a key of that object, not the
  instance property that \<^verbatim>\<open>_runFrames\<close> uses.)
\<close>

definition own_props :: "host \<Rightarrow> jsval \<Rightarrow> (pname \<times> jsval) list" where
  "own_props h node =
     [(FrameCount, VNum (Fin 0)), (Other ''focused'', VBool True),
      (Other ''displayWidth'', VNum (Fin (screen_width h))),
      (Other ''displayHeight'', VNum (Fin (screen_height h))),
      (Other ''shapeKind'', VNull), (Other ''shapeInited'', VBool False),
      (Other ''mouseX'', VNum (Fin 0)), (Other ''mouseY'', VNum (Fin 0)),
      (Other ''pmouseX'', VNum (Fin 0)), (Other ''pmouseY'', VNum (Fin 0)),
      (Other ''winMouseX'', VNum (Fin 0)), (Other ''winMouseY'', VNum (Fin 0)),
      (Other ''pwinMouseX'', VNum (Fin 0)), (Other ''pwinMouseY'', VNum (Fin 0)),
      (Other ''mouseButton'', VNum (Fin 0)),
      (Other ''key'', VStr []), (Other ''keyCode'', VNum (Fin 0)),
      (Other ''keyDown'', VBool False),
      (Other ''touchX'', VNum (Fin 0)), (Other ''touchY'', VNum (Fin 0)),
      (Other ''pWriters'', VObj ''pWriters''),
      (CurElement, VNull), (Other ''_elements'', VObj ''_elements''),
      (Other ''matrices'', VObj ''matrices''),
      (Other ''settings'', VObj ''settings''),
      (Other ''_startTime'', VNum (Fin (of_int (clock h)))),
      (Other ''_userNode'', node),
      (PreloadCount, VNum (Fin 0)),
      (IsGlobal, VBool False),
      (FrameRate, VNum (Fin 0)), (LastFrameTime, VNum (Fin 0)),
      (TargetFrameRate, VNum (Fin 60)),
      (Other ''_textLeading'', VNum (Fin 15)), (Other ''_textFont'', VStr ''sans-serif''),
      (Other ''_textSize'', VNum (Fin 12)), (Other ''_textStyle'', const_val h ''NORMAL''),
      (Other ''styles'', VObj ''styles''),
      (Other ''_bezierDetail'', VNum (Fin 20)), (Other ''_curveDetail'', VNum (Fin 20)),
      (Other ''_contourInited'', VBool False),
      (Other ''_contourVertices'', VObj ''_contourVertices'')]"

definition created :: "host \<Rightarrow> jsval \<Rightarrow> rt" where
  "created h node =
     \<lparr>inst = assign_all (own_props h node) Map.empty,
      proto = assign_all (map (\<lambda>m. (m, VFun (Native m))) p5_methods) Map.empty,
      win = assign_all (globals h) Map.empty,
      settings = assign_all (settings0 h) Map.empty,
      ctx = fresh_ctx,
      intervals = [], timeouts = [], next_handle = 1, pending = [],
      listeners = [], awaiting_load = False, trace = []\<rparr>"

text \<open>
  Global mode:
  \<^verbatim>\<open>
  this._isGlobal = true;
  for (var method in p5.prototype) { window[method] = p5.prototype[method].bind(this); }
  for (var prop in this) { if (this.hasOwnProperty(prop)) { window[prop] = this[prop]; } }
  for (var constant in constants) { ... window[constant] = constants[constant]; }
  \<close>
\<close>

definition bind_global :: "host \<Rightarrow> jsval \<Rightarrow> rt \<Rightarrow> rt" where
  "bind_global h node s =
     (let s1 = s\<lparr>inst := (inst s)(IsGlobal \<mapsto> VBool True)\<rparr>;
          w1 = assign_all (map (\<lambda>m. (m, VFun (Bound m))) p5_methods) (win s1);
          w2 = copy_props (map fst (own_props h node)) (inst s1) w1
      in s1\<lparr>win := assign_all (constants h) w2\<rparr>)"

text \<open>
  Instance mode: the sketch closure is called with the instance; it is modelled by the
  properties it attaches. Then the constants go onto the prototype and one listener per
  input event is added to the window:
  \<^verbatim>\<open>
  window.addEventListener('mousemove', function (e) {
    this.onmousemove(e);
  }.bind(this));
  \<close>
  and likewise for the other ten events.
\<close>

definition input_events :: "input_event list" where
  "input_events =
     [Mousemove, Mousedown, Mouseup, Mouseclick, Mousewheel,
      Keydown, Keyup, Keypress, Touchstart, Touchmove, Touchend]"

definition bind_instance :: "host \<Rightarrow> (pname \<times> jsval) list \<Rightarrow> rt \<Rightarrow> rt" where
  "bind_instance h sketch s =
     s\<lparr>inst := assign_all sketch (inst s),
       proto := assign_all (constants h) (proto s),
       listeners := listeners s @ input_events\<rparr>"

text \<open>
  \<^verbatim>\<open>
  if (document.readyState === 'complete') {
    this._start();
  } else {
    window.addEventListener('load', this._start.bind(this), false);
  }
  \<close>
\<close>

definition p5 :: "host \<Rightarrow> (pname \<times> jsval) list option \<Rightarrow> jsval \<Rightarrow> error option \<times> rt" where
  "p5 h sketch node =
     (let s0 = created h node;
          s1 = (case sketch of
                  None \<Rightarrow> bind_global h node s0
                | Some f \<Rightarrow> bind_instance h f s0)
      in if ready h then p5_start (clock h) s1 else (None, s1\<lparr>awaiting_load := True\<rparr>))"

section \<open>The event loop\<close>

text \<open>
  The host runs one handler at a time, to completion: the window's load event, the
  completion of the i-th outstanding request, the firing of the interval timer with
  handle h, the firing of the i-th pending draw timeout (whose callback hands
  \<^verbatim>\<open>_draw\<close> to \<^verbatim>\<open>window.requestDraw\<close>, the host's animation-frame hook, which
  calls it once), and an input event. Events that read the clock carry the reading.
\<close>

datatype event =
    HostReady int
  | Complete nat int
  | Tick nat
  | DrawTimer nat int
  | Input input_event

definition remove_nth :: "nat \<Rightarrow> 'a list \<Rightarrow> 'a list" where
  "remove_nth i xs = take i xs @ drop (Suc i) xs"

text \<open>The listener of an input event: \<^verbatim>\<open>this.on<event>(e)\<close>.\<close>

definition listener :: "input_event \<Rightarrow> rt \<Rightarrow> error option \<times> rt" where
  "listener ev s = call_user (On ev) (this_prop s (On ev)) s"

fun handle :: "event \<Rightarrow> rt \<Rightarrow> error option \<times> rt" where
  "handle (HostReady now) s =
     (if awaiting_load s then p5_start now (s\<lparr>awaiting_load := False\<rparr>) else (None, s))"
| "handle (Complete i now) s =
     (if i < length (pending s)
      then (if barrier_request (pending s ! i)
            then preload_done now (s\<lparr>pending := remove_nth i (pending s)\<rparr>)
            else (None, s\<lparr>pending := remove_nth i (pending s)\<rparr>))
      else (None, s))"
| "handle (Tick h) s = (if h \<in> fst ` set (intervals s) then (None, ticker s) else (None, s))"
| "handle (DrawTimer i now) s =
     (if i < length (timeouts s)
      then p5_draw now (s\<lparr>timeouts := remove_nth i (timeouts s)\<rparr>)
      else (None, s))"
| "handle (Input ev) s = (if ev \<in> set (listeners s) then listener ev s else (None, s))"

text \<open>An exception that leaves a handler is reported by the host; the loop goes on.\<close>

definition step :: "event \<Rightarrow> rt \<Rightarrow> rt" where
  "step e s =
     (case handle e s of
        (None, s') \<Rightarrow> s'
      | (Some err, s') \<Rightarrow> s'\<lparr>trace := trace s' @ [Uncaught err]\<rparr>)"

fun run :: "event list \<Rightarrow> rt \<Rightarrow> rt" where
  "run [] s = s"
| "run (e # es) s = run es (step e s)"

text \<open>How often a user callback was entered.\<close>

definition invocations :: "pname \<Rightarrow> rt \<Rightarrow> nat" where
  "invocations name s = count_list (trace s) (Invoked name)"

section \<open>The 2D primitives\<close>

text \<open>
  The functions of \<^verbatim>\<open>src/shape/2d_primitives.js\<close>. Each returns either the
  instance (\<^verbatim>\<open>return this\<close>) or \<^verbatim>\<open>undefined\<close> (a bare \<^verbatim>\<open>return\<close>). The
  canvas context is a collaborator of the host: its methods are recorded in the order in
  which they are called. \<^verbatim>\<open>canvas.modeAdjust\<close> and \<^verbatim>\<open>canvas.arcModeAdjust\<close>
  belong to a module that is not among the sources and are parameters, as is the
  \<^verbatim>\<open>constants\<close> object.
\<close>

datatype returned = ReturnsThis | ReturnsUndefined

record vals =
  vals_x :: jsnum
  vals_y :: jsnum
  vals_w :: jsnum
  vals_h :: jsnum

type_synonym mode_adjust = "jsnum \<Rightarrow> jsnum \<Rightarrow> jsnum \<Rightarrow> jsnum \<Rightarrow> jsval \<Rightarrow> vals"

text \<open>
  \<^verbatim>\<open>this.curElement.context\<close>: reading \<^verbatim>\<open>context\<close> off what is not an object
  (the constructor leaves \<^verbatim>\<open>curElement\<close> null until a canvas exists) is a
  TypeError.
\<close>

fun has_context :: "jsval \<Rightarrow> bool" where
  "has_context (VObj r) = True"
| "has_context v = False"

definition emit :: "canvas_op list \<Rightarrow> rt \<Rightarrow> rt" where
  "emit os s = s\<lparr>ctx := (ctx s)\<lparr>ops := ops (ctx s) @ os\<rparr>\<rparr>"

definition primitive :: "canvas_op list \<Rightarrow> rt \<Rightarrow> error + returned \<times> rt" where
  "primitive os s =
     (if has_context (this_prop s CurElement) then Inr (ReturnsThis, emit os s)
      else Inl TypeError)"

definition transparent :: string where
  "transparent = ''rgba(0,0,0,0)''"

definition half :: "jsnum \<Rightarrow> jsnum" where
  "half x = js_div x (Fin 2)"

text \<open>
  \<^verbatim>\<open>
  p5.prototype.arc = function(a, b, c, d, start, stop, mode) {
    var vals = canvas.arcModeAdjust(a, b, c, d, this.settings.ellipseMode);
    var radius = (vals.h > vals.w) ? vals.h / 2 : vals.w / 2,
        xScale = (vals.h > vals.w) ? vals.w / vals.h : 1,
        yScale = (vals.h > vals.w) ? 1 : vals.h / vals.w;
    this.curElement.context.scale(xScale, yScale);
    this.curElement.context.beginPath();
    this.curElement.context.arc(vals.x, vals.y, radius, start, stop);
    this.curElement.context.stroke();
    if (mode === constants.CHORD || mode === constants.OPEN) {
      this.curElement.context.closePath();
    } else if (mode === constants.PIE || mode === undefined) {
      this.curElement.context.lineTo(vals.x, vals.y);
      this.curElement.context.closePath();
    }
    this.curElement.context.fill();
    if (mode !== constants.OPEN && mode !== undefined) {
      this.curElement.context.stroke();
    }
    return this;
  };
  \<close>
\<close>

definition p5_arc ::
  "mode_adjust \<Rightarrow> obj \<Rightarrow> jsnum \<Rightarrow> jsnum \<Rightarrow> jsnum \<Rightarrow> jsnum \<Rightarrow> jsnum \<Rightarrow> jsnum \<Rightarrow> jsval \<Rightarrow> rt
     \<Rightarrow> error + returned \<times> rt" where
  "p5_arc arcModeAdjust consts a b c d start stop mode s =
     (let v = arcModeAdjust a b c d (get_prop (settings s) EllipseMode);
          tall = js_gt (vals_h v) (vals_w v);
          radius = (if tall then half (vals_h v) else half (vals_w v));
          xScale = (if tall then js_div (vals_w v) (vals_h v) else Fin 1);
          yScale = (if tall then Fin 1 else js_div (vals_h v) (vals_w v));
          chord = get_prop consts (Other ''CHORD'');
          opn = get_prop consts (Other ''OPEN'');
          pie = get_prop consts (Other ''PIE'')
      in primitive
           ([Scale xScale yScale, BeginPath, Arc5 (vals_x v) (vals_y v) radius start stop, Stroke]
            @ (if strict_eq mode chord \<or> strict_eq mode opn then [ClosePath]
               else if strict_eq mode pie \<or> strict_eq mode VUndefined
               then [LineTo (vals_x v) (vals_y v), ClosePath] else [])
            @ [Fill]
            @ (if \<not> strict_eq mode opn \<and> \<not> strict_eq mode VUndefined then [Stroke] else []))
           s)"

text \<open>
  \<^verbatim>\<open>
  p5.prototype.ellipse = function(a, b, c, d) {
    var vals = canvas.modeAdjust(a, b, c, d, this.settings.ellipseMode);
    var kappa = 0.5522848,
        ox = (vals.w / 2) * kappa, oy = (vals.h / 2) * kappa,
        xe = vals.x + vals.w, ye = vals.y + vals.h,
        xm = vals.x + vals.w / 2, ym = vals.y + vals.h / 2;
    this.curElement.context.beginPath();
    this.curElement.context.moveTo(vals.x, ym);
    this.curElement.context.bezierCurveTo(vals.x, ym - oy, xm - ox, vals.y, xm, vals.y);
    this.curElement.context.bezierCurveTo(xm + ox, vals.y, xe, ym - oy, xe, ym);
    this.curElement.context.bezierCurveTo(xe, ym + oy, xm + ox, ye, xm, ye);
    this.curElement.context.bezierCurveTo(xm - ox, ye, vals.x, ym + oy, vals.x, ym);
    this.curElement.context.closePath();
    this.curElement.context.fill();
    this.curElement.context.stroke();
    return this;
  };
  \<close>
\<close>

definition kappa :: jsnum where
  "kappa = Fin (5522848 / 10000000)"

definition p5_ellipse ::
  "mode_adjust \<Rightarrow> jsnum \<Rightarrow> jsnum \<Rightarrow> jsnum \<Rightarrow> jsnum \<Rightarrow> rt \<Rightarrow> error + returned \<times> rt" where
  "p5_ellipse modeAdjust a b c d s =
     (let v = modeAdjust a b c d (get_prop (settings s) EllipseMode);
          x = vals_x v; y = vals_y v;
          ox = js_mul (half (vals_w v)) kappa;
          oy = js_mul (half (vals_h v)) kappa;
          xe = js_add x (vals_w v);
          ye = js_add y (vals_h v);
          xm = js_add x (half (vals_w v));
          ym = js_add y (half (vals_h v))
      in primitive
           [BeginPath, MoveTo x ym,
            BezierCurveTo x (js_sub ym oy) (js_sub xm ox) y xm y,
            BezierCurveTo (js_add xm ox) y xe (js_sub ym oy) xe ym,
            BezierCurveTo xe (js_add ym oy) (js_add xm ox) ye xm ye,
            BezierCurveTo (js_sub xm ox) ye x (js_add ym oy) x ym,
            ClosePath, Fill, Stroke]
           s)"

text \<open>
  \<^verbatim>\<open>
  p5.prototype.line = function(x1, y1, x2, y2) {
    if (this.curElement.context.strokeStyle === 'rgba(0,0,0,0)') {
      return;
    }
    this.curElement.context.beginPath();
    this.curElement.context.moveTo(x1, y1);
    this.curElement.context.lineTo(x2, y2);
    this.curElement.context.stroke();
    return this;
  };
  \<close>
\<close>

definition p5_line :: "jsnum \<Rightarrow> jsnum \<Rightarrow> jsnum \<Rightarrow> jsnum \<Rightarrow> rt \<Rightarrow> error + returned \<times> rt" where
  "p5_line x1 y1 x2 y2 s =
     (if \<not> has_context (this_prop s CurElement) then Inl TypeError
      else if strokeStyle (ctx s) = transparent then Inr (ReturnsUndefined, s)
      else primitive [BeginPath, MoveTo x1 y1, LineTo x2 y2, Stroke] s)"

text \<open>
  \<^verbatim>\<open>
  p5.prototype.point = function(x, y) {
    var s = this.curElement.context.strokeStyle;
    var f = this.curElement.context.fillStyle;
    if (s === 'rgba(0,0,0,0)') {
      return;
    }
    x = Math.round(x);
    y = Math.round(y);
    this.curElement.context.fillStyle = s;
    if (this.curElement.context.lineWidth > 1) {
      this.curElement.context.beginPath();
      this.curElement.context.arc(x, y, this.curElement.context.lineWidth / 2, 0,
        constants.TWO_PI, false);
      this.curElement.context.fill();
    } else {
      this.curElement.context.fillRect(x, y, 1, 1);
    }
    this.curElement.context.fillStyle = f;
    return this;
  };
  \<close>
  The two assignments to \<^verbatim>\<open>fillStyle\<close> are recorded among the calls; the property
  ends with the value it had.
\<close>

definition p5_point :: "obj \<Rightarrow> jsnum \<Rightarrow> jsnum \<Rightarrow> rt \<Rightarrow> error + returned \<times> rt" where
  "p5_point consts x y s =
     (if \<not> has_context (this_prop s CurElement) then Inl TypeError
      else if strokeStyle (ctx s) = transparent then Inr (ReturnsUndefined, s)
      else
        let st = strokeStyle (ctx s); f = fillStyle (ctx s);
            rx = js_round x; ry = js_round y;
            w = lineWidth (ctx s)
        in primitive
             ([SetFillStyle st]
              @ (if js_gt w (Fin 1)
                 then [BeginPath,
                       Arc6 rx ry (half w) (Fin 0) (num_of (get_prop consts (Other ''TWO_PI''))) False,
                       Fill]
                 else [FillRect rx ry (Fin 1) (Fin 1)])
              @ [SetFillStyle f])
             s)"

text \<open>
  \<^verbatim>\<open>
  p5.prototype.quad = function(x1, y1, x2, y2, x3, y3, x4, y4) {
    this.curElement.context.beginPath();
    this.curElement.context.moveTo(x1, y1);
    this.curElement.context.lineTo(x2, y2);
    this.curElement.context.lineTo(x3, y3);
    this.curElement.context.lineTo(x4, y4);
    this.curElement.context.closePath();
    this.curElement.context.fill();
    this.curElement.context.stroke();
    return this;
  };
  \<close>
\<close>

definition p5_quad ::
  "jsnum \<Rightarrow> jsnum \<Rightarrow> jsnum \<Rightarrow> jsnum \<Rightarrow> jsnum \<Rightarrow> jsnum \<Rightarrow> jsnum \<Rightarrow> jsnum \<Rightarrow> rt
     \<Rightarrow> error + returned \<times> rt" where
  "p5_quad x1 y1 x2 y2 x3 y3 x4 y4 s =
     primitive
       [BeginPath, MoveTo x1 y1, LineTo x2 y2, LineTo x3 y3, LineTo x4 y4, ClosePath, Fill,
        Stroke]
       s"

text \<open>
  \<^verbatim>\<open>
  p5.prototype.rect = function(a, b, c, d) {
    var vals = canvas.modeAdjust(a, b, c, d, this.settings.rectMode);
    this.curElement.context.beginPath();
    this.curElement.context.rect(vals.x, vals.y, vals.w, vals.h);
    this.curElement.context.fill();
    this.curElement.context.stroke();
    return this;
  };
  \<close>
\<close>

definition p5_rect ::
  "mode_adjust \<Rightarrow> jsnum \<Rightarrow> jsnum \<Rightarrow> jsnum \<Rightarrow> jsnum \<Rightarrow> rt \<Rightarrow> error + returned \<times> rt" where
  "p5_rect modeAdjust a b c d s =
     (let v = modeAdjust a b c d (get_prop (settings s) RectMode)
      in primitive [BeginPath, RectPath (vals_x v) (vals_y v) (vals_w v) (vals_h v), Fill, Stroke] s)"

text \<open>
  \<^verbatim>\<open>
  p5.prototype.triangle = function(x1, y1, x2, y2, x3, y3) {
    this.curElement.context.beginPath();
    this.curElement.context.moveTo(x1, y1);
    this.curElement.context.lineTo(x2, y2);
    this.curElement.context.lineTo(x3, y3);
    this.curElement.context.closePath();
    this.curElement.context.fill();
    this.curElement.context.stroke();
    return this;
  };
  \<close>
\<close>

definition p5_triangle ::
  "jsnum \<Rightarrow> jsnum \<Rightarrow> jsnum \<Rightarrow> jsnum \<Rightarrow> jsnum \<Rightarrow> jsnum \<Rightarrow> rt \<Rightarrow> error + returned \<times> rt" where
  "p5_triangle x1 y1 x2 y2 x3 y3 s =
     primitive [BeginPath, MoveTo x1 y1, LineTo x2 y2, LineTo x3 y3, ClosePath, Fill, Stroke] s"

text \<open>What a call returned, if it returned.\<close>

fun returns :: "error + returned \<times> rt \<Rightarrow> returned option" where
  "returns (Inl e) = None"
| "returns (Inr (v, s)) = Some v"


section \<open>Notions used in the statements\<close>

text \<open>
  \<open>only K s s'\<close>: from \<open>s\<close> to \<open>s'\<close> the prototype and the listeners are the
  same, and so is every property of the instance and of the window whose name is not in
  \<open>K\<close>.
\<close>

definition only :: "pname set \<Rightarrow> rt \<Rightarrow> rt \<Rightarrow> bool" where
  "only K s s' =
     (proto s' = proto s \<and> listeners s' = listeners s \<and>
      (\<forall>k. k \<notin> K \<longrightarrow> inst s' k = inst s k \<and> win s' k = win s k))"

text \<open>What user actions can write, and what the setup-and-loop transition can write.\<close>

definition action_keys :: "pname set" where
  "action_keys = {PreloadDashCount, TargetFrameRate, UpdateInterval}"

definition loop_keys :: "pname set" where
  "loop_keys = {PreloadDashCount, TargetFrameRate, UpdateInterval, FrameRate, LastFrameTime}"

text \<open>What \<^verbatim>\<open>_start\<close> can write.\<close>

definition start_keys :: "pname set" where
  "start_keys = insert CurElement (loop_keys \<union> range Loader)"

text \<open>The value of an optional property, with a default.\<close>

fun or_else :: "'a option \<Rightarrow> 'a \<Rightarrow> 'a" where
  "or_else (Some v) d = v"
| "or_else None d = d"

text \<open>The firing of a live interval timer; how many there are in a run.\<close>

fun live_tick :: "event \<Rightarrow> rt \<Rightarrow> bool" where
  "live_tick (Tick h) s = (h \<in> fst ` set (intervals s))"
| "live_tick e s = False"

fun fired :: "event list \<Rightarrow> rt \<Rightarrow> nat" where
  "fired [] s = 0"
| "fired (e # es) s = (if live_tick e s then 1 else 0) + fired es (step e s)"

text \<open>\<^verbatim>\<open>this.draw || window.draw\<close>, and likewise for the preload callback.\<close>

definition userDraw :: "rt \<Rightarrow> jsval" where
  "userDraw s = js_or (this_prop s Draw) (get_prop (win s) Draw)"

definition userPreload :: "rt \<Rightarrow> jsval" where
  "userPreload s = js_or (this_prop s Preload) (get_prop (win s) Preload)"

definition looping :: "rt \<Rightarrow> bool" where
  "looping s = truthy (get_prop (settings s) Loop)"

text \<open>The prototype holds the loaders themselves, and no loader of the context is one of
  the closures of \<^verbatim>\<open>_start\<close>.\<close>

definition originals :: "rt \<Rightarrow> bool" where
  "originals s = list_all (\<lambda>f. get_prop (proto s) (Loader f) = VFun (Native (Loader f))) loaders"

definition restored :: "rt \<Rightarrow> bool" where
  "restored s = list_all (\<lambda>f. context_prop s (Loader f) = VFun (Native (Loader f))) loaders"

text \<open>Every loader of the context is the closure that \<^verbatim>\<open>_start\<close> put in its place.\<close>

definition installed :: "rt \<Rightarrow> bool" where
  "installed s = list_all (\<lambda>f. context_prop s (Loader f) = VFun (Wrapper f)) loaders"

text \<open>
  Nothing is left that could start the loop: no outstanding request, no timer, no load
  event to wait for, and no input handler on the instance.
\<close>

definition idle :: "rt \<Rightarrow> bool" where
  "idle s =
     (pending s = [] \<and> intervals s = [] \<and> timeouts s = [] \<and> \<not> awaiting_load s \<and>
      (\<forall>ev. this_prop s (On ev) = VUndefined))"

section \<open>Concrete sketches\<close>

text \<open>A page whose document is complete when the sketch is constructed, at clock 1000.\<close>

definition page :: host where
  "page = \<lparr>screen_width = 1280, screen_height = 800, clock = 1000, ready = True,
            globals = [], constants = []\<rparr>"

text \<open>Instance-mode sketches, given by what their closure attaches to the instance.\<close>

definition empty_sketch :: "(pname \<times> jsval) list" where
  "empty_sketch = []"

definition two_loads :: "(pname \<times> jsval) list" where
  "two_loads =
     [(Preload, VFun (User [Load LoadJSON ''a'', Load LoadImage ''b''])),
      (Setup, VFun (User []))]"

definition no_loads :: "(pname \<times> jsval) list" where
  "no_loads = [(Preload, VFun (User [])), (Setup, VFun (User []))]"

definition slows_down :: "(pname \<times> jsval) list" where
  "slows_down = [(Draw, VFun (User [SetTargetFrameRate (Fin 30)]))]"

definition stops_looping :: "(pname \<times> jsval) list" where
  "stops_looping = [(Draw, VFun (User [SetLoop False]))]"

definition throwing_draw :: "(pname \<times> jsval) list" where
  "throwing_draw = [(Draw, VFun (User [Throw]))]"

definition throwing_preload :: "(pname \<times> jsval) list" where
  "throwing_preload =
     [(Preload, VFun (User [Load LoadJSON ''a'', Throw])),
      (Setup, VFun (User [])),
      (Draw, VFun (User [Load LoadJSON ''b'']))]"

definition one_load :: "(pname \<times> jsval) list" where
  "one_load =
     [(Preload, VFun (User [Load LoadJSON ''a''])),
      (Draw, VFun (User [Load LoadJSON ''b'']))]"

definition with_mouse :: "(pname \<times> jsval) list" where
  "with_mouse = [(On Mousemove, VFun (User [SetLoop False]))]"

text \<open>The state a construction leaves.\<close>

definition booted :: "host \<Rightarrow> (pname \<times> jsval) list option \<Rightarrow> rt" where
  "booted h sketch = snd (p5 h sketch VUndefined)"


section \<open>Rounding to a double\<close>

text \<open>
  A magnitude that is a whole number of units in the last place is a double already.
  So are the natural numbers up to \<open>2 ^ 53\<close>; the next one lies half way between two
  doubles and is rounded to the even one, \<open>2 ^ 53\<close> itself.
\<close>

lemma round_even_of_int [simp]: "round_even (of_int m) = m"
  by (simp add: round_even_def)

lemma round_even_half:
  assumes "even m"
  shows "round_even (of_int m + 1 / 2) = m"
proof -
  have "\<lfloor>of_int m + 1 / 2 :: rat\<rfloor> = m"
    by (rule floor_unique) simp_all
  with assms show ?thesis
    by (simp add: round_even_def Let_def)
qed

lemma ulp_pos: "0 < ulp a"
  by (simp add: ulp_def)

lemma to_double_exact:
  assumes "\<bar>q\<bar> = of_int m * ulp \<bar>q\<bar>" and "\<bar>q\<bar> < 2 ^ 1024"
  shows "to_double (Fin q) = Fin q"
proof -
  have "\<bar>q\<bar> / ulp \<bar>q\<bar> = of_int m"
    using assms(1) ulp_pos [of "\<bar>q\<bar>"] by (simp add: field_simps)
  then have "of_int (round_even (\<bar>q\<bar> / ulp \<bar>q\<bar>)) * ulp \<bar>q\<bar> = \<bar>q\<bar>"
    using assms(1) by simp
  with assms(2) show ?thesis
    by (simp add: Let_def)
qed

lemma bitlen_1: "bitlen 1 = 1"
  using bitlen_twopow_add_eq [where w = 0 and b = 0] by simp

lemma bitlen_pos: "0 < n \<Longrightarrow> 0 < bitlen (int n)"
  using bitlen_eq_zero_iff [of "int n"] bitlen_nonneg [of "int n"] by simp

lemma ilog2_of_nat:
  assumes "0 < n"
  shows "ilog2 (of_nat n) = bitlen (int n) - 1"
proof -
  have q: "quotient_of (of_nat n) = (int n, 1)"
    using quotient_of_int [of "int n"] by simp
  have b: "2 ^ nat (bitlen (int n) - 1) \<le> int n"
    using bitlen_bounds [of "int n"] assms by simp
  have "power_int 2 (bitlen (int n) - 1) = (2::rat) ^ nat (bitlen (int n) - 1)"
    using bitlen_pos [OF assms] by (simp add: power_int_def)
  also have "\<dots> \<le> of_nat n"
  proof -
    have "(of_int (2 ^ nat (bitlen (int n) - 1)) :: rat) \<le> of_int (int n)"
      using b by (simp only: of_int_le_iff)
    then show ?thesis by simp
  qed
  finally show ?thesis
    by (simp add: ilog2_def q Let_def bitlen_1)
qed

lemma to_double_of_nat:
  assumes "n \<le> 2 ^ 53"
  shows "to_double (Fin (of_nat n)) = Fin (of_nat n)"
proof (cases "n = 0")
  case True
  have "\<bar>0::rat\<bar> = of_int 0 * ulp \<bar>0\<bar>" by simp
  then have "to_double (Fin 0) = Fin 0"
    by (rule to_double_exact) simp
  with True show ?thesis by simp
next
  case False
  define e where "e = nat (bitlen (int n) - 1)"
  have i: "ilog2 (of_nat n) = int e"
    using False bitlen_pos [of n] by (simp add: ilog2_of_nat e_def)
  have "2 ^ e \<le> int n"
    using bitlen_bounds [of "int n"] False by (simp add: e_def)
  then have "int (2 ^ e) \<le> int n" by simp
  then have le: "2 ^ e \<le> n"
    by (simp only: of_nat_le_iff)
  from le assms have "(2::nat) ^ e \<le> 2 ^ 53"
    by (rule order_trans)
  then have e53: "e \<le> 53"
    by (simp only: power_increasing_iff one_less_numeral_iff num.simps semiring_norm)
  have u: "ulp (of_nat n) = power_int 2 (int e - 52)"
    by (simp add: ulp_def i)
  have "\<exists>m. (of_nat n :: rat) = of_int m * ulp (of_nat n)"
  proof (cases "e = 53")
    case True
    with le assms have n: "n = 2 ^ 53" by simp
    have "(of_nat n :: rat) = of_int (2 ^ 52) * ulp (of_nat n)"
      unfolding u by (simp add: True n)
    then show ?thesis ..
  next
    case False
    with e53 have "e \<le> 52" by simp
    then have "ulp (of_nat n) = 1 / 2 ^ (52 - e)"
      by (cases "e = 52")
        (simp_all add: u power_int_def nat_diff_distrib' power_one_over inverse_eq_divide)
    then have "(of_nat n :: rat) = of_int (int n * 2 ^ (52 - e)) * ulp (of_nat n)"
      by simp
    then show ?thesis ..
  qed
  then obtain m where m: "\<bar>of_nat n :: rat\<bar> = of_int m * ulp \<bar>of_nat n\<bar>" by auto
  have "(of_nat n :: rat) \<le> of_nat (2 ^ 53)"
    using assms by (simp only: of_nat_le_iff)
  then have "\<bar>of_nat n :: rat\<bar> < 2 ^ 1024" by simp
  with m show ?thesis by (rule to_double_exact)
qed

lemma to_double_tie:
  assumes "n = 2 ^ 53"
  shows "to_double (Fin (of_nat (Suc n))) = Fin (of_nat n)"
proof -
  let ?q = "of_nat (Suc n) :: rat"
  have "bitlen (int (Suc n)) = 54"
    using bitlen_twopow_add_eq [where w = 53 and b = 1] assms by simp
  then have "ilog2 ?q = 53"
    using ilog2_of_nat [of "Suc n"] by simp
  then have u: "ulp ?q = 2"
    by (simp add: ulp_def)
  have h: "?q / 2 = of_int (2 ^ 52) + 1 / 2"
    by (simp add: assms)
  have "round_even (?q / 2) = 2 ^ 52"
    unfolding h by (rule round_even_half) simp
  then have "of_int (round_even (\<bar>?q\<bar> / ulp \<bar>?q\<bar>)) * ulp \<bar>?q\<bar> = (of_nat n :: rat)"
    using u by (simp add: assms)
  moreover have "(of_nat n :: rat) < 2 ^ 1024" "0 < ?q"
    by (simp_all add: assms)
  ultimately show ?thesis
    by (simp add: Let_def del: of_nat_Suc)
qed

lemma to_double_0 [simp]: "to_double (Fin 0) = Fin 0"
  using to_double_of_nat [of 0] by simp

lemma to_double_1 [simp]: "to_double (Fin 1) = Fin 1"
  using to_double_of_nat [of 1] by simp

lemma to_double_numeral [simp]:
  "numeral k \<le> (2::nat) ^ 53 \<Longrightarrow> to_double (Fin (numeral k)) = Fin (numeral k)"
  using to_double_of_nat [of "numeral k"] by simp

declare to_double.simps(1) [simp del]

section \<open>How each operation acts on the state\<close>

text \<open>
  One group of equations per operation, one equation per field; the property maps are
  described by their value at a name.
\<close>

lemma this_prop_alt: "this_prop s n = or_else (inst s n) (get_prop (proto s) n)"
  by (cases "inst s n") (simp_all add: this_prop_def)

lemma get_prop_alt: "get_prop ob n = or_else (ob n) VUndefined"
  by (cases "ob n") (simp_all add: get_prop_def)

lemma context_set_fields [simp]:
  "inst (context_set g n v s) k = (if \<not> g \<and> k = n then Some v else inst s k)"
  "proto (context_set g n v s) = proto s"
  "win (context_set g n v s) k = (if g \<and> k = n then Some v else win s k)"
  "settings (context_set g n v s) = settings s"
  "ctx (context_set g n v s) = ctx s"
  "intervals (context_set g n v s) = intervals s"
  "timeouts (context_set g n v s) = timeouts s"
  "next_handle (context_set g n v s) = next_handle s"
  "pending (context_set g n v s) = pending s"
  "listeners (context_set g n v s) = listeners s"
  "awaiting_load (context_set g n v s) = awaiting_load s"
  "trace (context_set g n v s) = trace s"
  by (simp_all add: context_set_def)

lemma p5_setProperty_fields [simp]:
  "inst (p5_setProperty p v s) k = (if k = p then Some v else inst s k)"
  "proto (p5_setProperty p v s) = proto s"
  "win (p5_setProperty p v s) k =
     (if k = p \<and> truthy (if p = IsGlobal then v else this_prop s IsGlobal) then Some v else win s k)"
  "settings (p5_setProperty p v s) = settings s"
  "ctx (p5_setProperty p v s) = ctx s"
  "intervals (p5_setProperty p v s) = intervals s"
  "timeouts (p5_setProperty p v s) = timeouts s"
  "next_handle (p5_setProperty p v s) = next_handle s"
  "pending (p5_setProperty p v s) = pending s"
  "listeners (p5_setProperty p v s) = listeners s"
  "awaiting_load (p5_setProperty p v s) = awaiting_load s"
  "trace (p5_setProperty p v s) = trace s"
  by (simp_all add: p5_setProperty_def Let_def is_global_def this_prop_def cong: option.case_cong)

lemma createCanvas_fields [simp]:
  "inst (createCanvas s) k = (if k = CurElement then Some (VObj ''canvas'') else inst s k)"
  "proto (createCanvas s) = proto s"
  "win (createCanvas s) = win s"
  "settings (createCanvas s) = settings s"
  "ctx (createCanvas s) = fresh_ctx"
  "intervals (createCanvas s) = intervals s"
  "timeouts (createCanvas s) = timeouts s"
  "next_handle (createCanvas s) = next_handle s"
  "pending (createCanvas s) = pending s"
  "listeners (createCanvas s) = listeners s"
  "awaiting_load (createCanvas s) = awaiting_load s"
  "trace (createCanvas s) = trace s"
  by (simp_all add: createCanvas_def)

lemma original_loader_fields [simp]:
  "inst (original_loader f path b s) = inst s"
  "proto (original_loader f path b s) = proto s"
  "win (original_loader f path b s) = win s"
  "settings (original_loader f path b s) = settings s"
  "ctx (original_loader f path b s) = ctx s"
  "intervals (original_loader f path b s) = intervals s"
  "timeouts (original_loader f path b s) = timeouts s"
  "next_handle (original_loader f path b s) = next_handle s"
  "pending (original_loader f path b s) = pending s @ [Request f path b]"
  "listeners (original_loader f path b s) = listeners s"
  "awaiting_load (original_loader f path b s) = awaiting_load s"
  "trace (original_loader f path b s) = trace s"
  by (simp_all add: original_loader_def)

lemma clearInterval_fields [simp]:
  "inst (clearInterval h s) = inst s"
  "proto (clearInterval h s) = proto s"
  "win (clearInterval h s) = win s"
  "settings (clearInterval h s) = settings s"
  "ctx (clearInterval h s) = ctx s"
  "intervals (clearInterval h s) = filter (\<lambda>t. VNum (Fin (of_nat (fst t))) \<noteq> h) (intervals s)"
  "timeouts (clearInterval h s) = timeouts s"
  "next_handle (clearInterval h s) = next_handle s"
  "pending (clearInterval h s) = pending s"
  "listeners (clearInterval h s) = listeners s"
  "awaiting_load (clearInterval h s) = awaiting_load s"
  "trace (clearInterval h s) = trace s"
  by (simp_all add: clearInterval_def)

lemma setTimeout_fields [simp]:
  "inst (setTimeout d s) = inst s"
  "proto (setTimeout d s) = proto s"
  "win (setTimeout d s) = win s"
  "settings (setTimeout d s) = settings s"
  "ctx (setTimeout d s) = ctx s"
  "intervals (setTimeout d s) = intervals s"
  "timeouts (setTimeout d s) = timeouts s @ [d]"
  "next_handle (setTimeout d s) = Suc (next_handle s)"
  "pending (setTimeout d s) = pending s"
  "listeners (setTimeout d s) = listeners s"
  "awaiting_load (setTimeout d s) = awaiting_load s"
  "trace (setTimeout d s) = trace s"
  by (simp_all add: setTimeout_def)

lemma p5_runFrames_fields [simp]:
  "inst (p5_runFrames s) k =
     (if k = UpdateInterval then Some (VNum (Fin (of_nat (next_handle s)))) else inst s k)"
  "proto (p5_runFrames s) = proto s"
  "win (p5_runFrames s) = win s"
  "settings (p5_runFrames s) = settings s"
  "ctx (p5_runFrames s) = ctx s"
  "intervals (p5_runFrames s) =
     (if truthy (this_prop s UpdateInterval)
      then filter (\<lambda>t. VNum (Fin (of_nat (fst t))) \<noteq> this_prop s UpdateInterval) (intervals s)
      else intervals s) @ [(next_handle s, frame_delay s)]"
  "timeouts (p5_runFrames s) = timeouts s"
  "next_handle (p5_runFrames s) = Suc (next_handle s)"
  "pending (p5_runFrames s) = pending s"
  "listeners (p5_runFrames s) = listeners s"
  "awaiting_load (p5_runFrames s) = awaiting_load s"
  "trace (p5_runFrames s) = trace s"
  by (simp_all add: p5_runFrames_def Let_def setInterval_def frame_delay_def this_prop_def cong: option.case_cong)

lemma ticker_fields [simp]:
  "inst (ticker s) k = (if k = FrameCount then Some (VNum (to_double (js_add (num_of (this_prop s FrameCount)) (Fin 1)))) else inst s k)"
  "proto (ticker s) = proto s"
  "win (ticker s) k = (if k = FrameCount \<and> is_global s then Some (VNum (to_double (js_add (num_of (this_prop s FrameCount)) (Fin 1)))) else win s k)"
  "settings (ticker s) = settings s"
  "ctx (ticker s) = ctx s"
  "intervals (ticker s) = intervals s"
  "timeouts (ticker s) = timeouts s"
  "next_handle (ticker s) = next_handle s"
  "pending (ticker s) = pending s"
  "listeners (ticker s) = listeners s"
  "awaiting_load (ticker s) = awaiting_load s"
  "trace (ticker s) = trace s"
  by (simp_all add: ticker_def is_global_def this_prop_def)

lemma measure_rate_fields [simp]:
  "inst (measure_rate now s) k =
     (if k = LastFrameTime then Some (VNum (Fin (of_int now)))
      else if k = FrameRate
      then Some (VNum (js_div (Fin 1000) (js_sub (Fin (of_int now)) (num_of (this_prop s LastFrameTime)))))
      else inst s k)"
  "proto (measure_rate now s) = proto s"
  "win (measure_rate now s) = win s"
  "settings (measure_rate now s) = settings s"
  "ctx (measure_rate now s) = ctx s"
  "intervals (measure_rate now s) = intervals s"
  "timeouts (measure_rate now s) = timeouts s"
  "next_handle (measure_rate now s) = next_handle s"
  "pending (measure_rate now s) = pending s"
  "listeners (measure_rate now s) = listeners s"
  "awaiting_load (measure_rate now s) = awaiting_load s"
  "trace (measure_rate now s) = trace s"
  by (simp_all add: measure_rate_def Let_def)

lemma schedule_next_fields [simp]:
  "inst (schedule_next s) = inst s"
  "proto (schedule_next s) = proto s"
  "win (schedule_next s) = win s"
  "settings (schedule_next s) = settings s"
  "ctx (schedule_next s) = ctx s"
  "intervals (schedule_next s) = intervals s"
  "timeouts (schedule_next s) =
     (if truthy (get_prop (settings s) Loop) then timeouts s @ [frame_delay s] else timeouts s)"
  "next_handle (schedule_next s) =
     (if truthy (get_prop (settings s) Loop) then Suc (next_handle s) else next_handle s)"
  "pending (schedule_next s) = pending s"
  "listeners (schedule_next s) = listeners s"
  "awaiting_load (schedule_next s) = awaiting_load s"
  "trace (schedule_next s) = trace s"
  by (simp_all add: schedule_next_def)

lemma install_wrappers_fields [simp]:
  "inst (install_wrappers g s) k =
     (case loader_of k of
        Some f \<Rightarrow> if g then inst s k else Some (VFun (Wrapper f))
      | None \<Rightarrow> inst s k)"
  "proto (install_wrappers g s) = proto s"
  "win (install_wrappers g s) k =
     (case loader_of k of
        Some f \<Rightarrow> if g then Some (VFun (Wrapper f)) else win s k
      | None \<Rightarrow> win s k)"
  "settings (install_wrappers g s) = settings s"
  "ctx (install_wrappers g s) = ctx s"
  "intervals (install_wrappers g s) = intervals s"
  "timeouts (install_wrappers g s) = timeouts s"
  "next_handle (install_wrappers g s) = next_handle s"
  "pending (install_wrappers g s) = pending s"
  "listeners (install_wrappers g s) = listeners s"
  "awaiting_load (install_wrappers g s) = awaiting_load s"
  "trace (install_wrappers g s) = trace s"
  by (cases k; cases g; simp add: install_wrappers_def loaders_def context_set_def; (rename_tac x, case_tac x; simp))+

lemma restore_loaders_fields [simp]:
  "inst (restore_loaders g s) k =
     (case loader_of k of
        Some f \<Rightarrow> if g then inst s k else Some (get_prop (proto s) k)
      | None \<Rightarrow> inst s k)"
  "proto (restore_loaders g s) = proto s"
  "win (restore_loaders g s) k =
     (case loader_of k of
        Some f \<Rightarrow> if g then Some (get_prop (proto s) k) else win s k
      | None \<Rightarrow> win s k)"
  "settings (restore_loaders g s) = settings s"
  "ctx (restore_loaders g s) = ctx s"
  "intervals (restore_loaders g s) = intervals s"
  "timeouts (restore_loaders g s) = timeouts s"
  "next_handle (restore_loaders g s) = next_handle s"
  "pending (restore_loaders g s) = pending s"
  "listeners (restore_loaders g s) = listeners s"
  "awaiting_load (restore_loaders g s) = awaiting_load s"
  "trace (restore_loaders g s) = trace s"
  by (cases k; cases g; simp add: restore_loaders_def loaders_def context_set_def; (rename_tac x, case_tac x; simp))+


lemma assign_all_apply:
  "assign_all kvs m k = (case map_of (rev kvs) k of None \<Rightarrow> m k | Some v \<Rightarrow> Some v)"
  by (induction kvs arbitrary: m) (auto simp: assign_all_def split: option.splits)

lemma assign_all_distinct:
  "distinct (map fst kvs) \<Longrightarrow>
   assign_all kvs m k = (case map_of kvs k of None \<Rightarrow> m k | Some v \<Rightarrow> Some v)"
proof (induction kvs arbitrary: m)
  case Nil
  then show ?case by (simp add: assign_all_def)
next
  case (Cons kv kvs)
  obtain a b where kv: "kv = (a, b)" by (cases kv)
  have unfold: "assign_all (kv # kvs) m k = assign_all kvs (m(a \<mapsto> b)) k"
    by (simp add: assign_all_def kv)
  from Cons.prems have d: "distinct (map fst kvs)" and none: "map_of kvs a = None"
    by (simp_all add: kv map_of_eq_None_iff)
  have ih: "assign_all kvs (m(a \<mapsto> b)) k =
      (case map_of kvs k of None \<Rightarrow> (m(a \<mapsto> b)) k | Some v \<Rightarrow> Some v)"
    by (rule Cons.IH [OF d])
  show ?case
  proof (cases "k = a")
    case True
    have "assign_all (kv # kvs) m k = Some b"
      using unfold ih none True by simp
    then show ?thesis by (simp add: kv True)
  next
    case False
    have "assign_all (kv # kvs) m k = (case map_of kvs k of None \<Rightarrow> m k | Some v \<Rightarrow> Some v)"
      using unfold ih False by (simp split: option.splits)
    then show ?thesis using False by (simp add: kv)
  qed
qed

lemma copy_props_apply:
  "copy_props ks src dst k = (if k \<in> set ks then Some (get_prop src k) else dst k)"
  by (induction ks arbitrary: dst) (auto simp: copy_props_def)

lemma own_props_distinct: "distinct (map fst (own_props h node))"
  by (simp add: own_props_def)

lemma p5_methods_distinct: "distinct p5_methods"
  by (simp add: p5_methods_def)

lemma settings0_distinct: "distinct (map fst (settings0 h))"
  by (simp add: settings0_def)

lemma created_fields [simp]:
  "inst (created h node) k = map_of (own_props h node) k"
  "proto (created h node) k = (if k \<in> set p5_methods then Some (VFun (Native k)) else None)"
  "win (created h node) k = map_of (rev (globals h)) k"
  "settings (created h node) k = map_of (settings0 h) k"
  "ctx (created h node) = fresh_ctx"
  "intervals (created h node) = []"
  "timeouts (created h node) = []"
  "next_handle (created h node) = 1"
  "pending (created h node) = []"
  "listeners (created h node) = []"
  "awaiting_load (created h node) = False"
  "trace (created h node) = []"
proof -
  have "map_of (map (\<lambda>m. (m, VFun (Native m))) xs) k =
        (if k \<in> set xs then Some (VFun (Native k)) else None)" for xs
    by (induction xs) auto
  then have "map_of (map (\<lambda>m. (m, VFun (Native m))) p5_methods) k =
        (if k \<in> set p5_methods then Some (VFun (Native k)) else None)" .
  moreover have "distinct (map fst (map (\<lambda>m. (m, VFun (Native m))) p5_methods))"
    using p5_methods_distinct by (simp add: comp_def)
  ultimately show "proto (created h node) k = (if k \<in> set p5_methods then Some (VFun (Native k)) else None)"
    by (simp add: created_def assign_all_distinct)
qed (simp_all add: created_def assign_all_distinct own_props_distinct settings0_distinct
       assign_all_apply [of "globals h"] split: option.splits)

lemma bind_instance_fields [simp]:
  "inst (bind_instance h sk s) k = (case map_of (rev sk) k of None \<Rightarrow> inst s k | Some v \<Rightarrow> Some v)"
  "proto (bind_instance h sk s) k =
     (case map_of (rev (constants h)) k of None \<Rightarrow> proto s k | Some v \<Rightarrow> Some v)"
  "win (bind_instance h sk s) = win s"
  "settings (bind_instance h sk s) = settings s"
  "ctx (bind_instance h sk s) = ctx s"
  "intervals (bind_instance h sk s) = intervals s"
  "timeouts (bind_instance h sk s) = timeouts s"
  "next_handle (bind_instance h sk s) = next_handle s"
  "pending (bind_instance h sk s) = pending s"
  "listeners (bind_instance h sk s) = listeners s @ input_events"
  "awaiting_load (bind_instance h sk s) = awaiting_load s"
  "trace (bind_instance h sk s) = trace s"
  by (simp_all add: bind_instance_def assign_all_apply)

lemma bind_global_fields [simp]:
  "inst (bind_global h node s) k = (if k = IsGlobal then Some (VBool True) else inst s k)"
  "win (bind_global h node s) k =
     (case map_of (rev (constants h)) k of
        Some v \<Rightarrow> Some v
      | None \<Rightarrow>
          if k \<in> fst ` set (own_props h node)
          then Some (get_prop ((inst s)(IsGlobal \<mapsto> VBool True)) k)
          else if k \<in> set p5_methods then Some (VFun (Bound k)) else win s k)"
  "proto (bind_global h node s) = proto s"
  "settings (bind_global h node s) = settings s"
  "ctx (bind_global h node s) = ctx s"
  "intervals (bind_global h node s) = intervals s"
  "timeouts (bind_global h node s) = timeouts s"
  "next_handle (bind_global h node s) = next_handle s"
  "pending (bind_global h node s) = pending s"
  "listeners (bind_global h node s) = listeners s"
  "awaiting_load (bind_global h node s) = awaiting_load s"
  "trace (bind_global h node s) = trace s"
proof -
  have m: "map_of (rev (map (\<lambda>m. (m, VFun (Bound m))) xs)) k =
        (if k \<in> set xs then Some (VFun (Bound k)) else None)" for xs
    by (induction xs) (auto simp: map_add_def split: option.splits)
  show "win (bind_global h node s) k =
     (case map_of (rev (constants h)) k of
        Some v \<Rightarrow> Some v
      | None \<Rightarrow>
          if k \<in> fst ` set (own_props h node)
          then Some (get_prop ((inst s)(IsGlobal \<mapsto> VBool True)) k)
          else if k \<in> set p5_methods then Some (VFun (Bound k)) else win s k)"
    by (simp add: bind_global_def Let_def assign_all_apply copy_props_apply m
          split: option.splits)
qed (simp_all add: bind_global_def Let_def)


lemma named_neq_Other [simp]: "\<not> is_other k \<Longrightarrow> k \<noteq> Other s"
  by (cases k) auto

lemma named_neq_Other' [simp]: "\<not> is_other k \<Longrightarrow> Other s \<noteq> k"
  by (cases k) auto

lemma own_props_named:
  "\<not> is_other k \<Longrightarrow>
   map_of (own_props h node) k =
     (if k = FrameCount then Some (VNum (Fin 0))
      else if k = CurElement then Some VNull
      else if k = PreloadCount then Some (VNum (Fin 0))
      else if k = IsGlobal then Some (VBool False)
      else if k = FrameRate then Some (VNum (Fin 0))
      else if k = LastFrameTime then Some (VNum (Fin 0))
      else if k = TargetFrameRate then Some (VNum (Fin 60))
      else None)"
  by (simp add: own_props_def)

lemma own_props_keys_named:
  "\<not> is_other k \<Longrightarrow>
   (k \<in> fst ` set (own_props h node)) =
     (k \<in> {FrameCount, CurElement, PreloadCount, IsGlobal, FrameRate, LastFrameTime, TargetFrameRate})"
  using own_props_named [of k h node] map_of_eq_None_iff [of "own_props h node" k]
  by (auto split: if_splits)

lemma p5_methods_named:
  "\<not> is_other k \<Longrightarrow> (k \<in> set p5_methods) = (loader_of k \<noteq> None)"
  by (cases k; simp add: p5_methods_def; (rename_tac x, case_tac x; simp))

lemma settings0_named:
  "\<not> is_other k \<Longrightarrow>
   map_of (settings0 h) k =
     (if k = Loop then Some (VBool True)
      else if k = RectMode then Some (const_val h ''CORNER'')
      else if k = EllipseMode then Some (const_val h ''CENTER'')
      else None)"
  by (simp add: settings0_def)

section \<open>What an operation leaves alone\<close>

lemma only_refl [simp]: "only K s s"
  by (simp add: only_def)

lemma only_trans: "only K s t \<Longrightarrow> only K t u \<Longrightarrow> only K s u"
  by (simp add: only_def)

lemma only_mono: "only K s t \<Longrightarrow> K \<subseteq> K' \<Longrightarrow> only K' s t"
  by (auto simp: only_def)

lemma only_inst: "only K s t \<Longrightarrow> k \<notin> K \<Longrightarrow> inst t k = inst s k"
  by (simp add: only_def)

lemma only_win: "only K s t \<Longrightarrow> k \<notin> K \<Longrightarrow> win t k = win s k"
  by (simp add: only_def)

lemma only_proto: "only K s t \<Longrightarrow> proto t = proto s"
  by (simp add: only_def)

lemma only_listeners: "only K s t \<Longrightarrow> listeners t = listeners s"
  by (simp add: only_def)

lemma only_this_prop: "only K s t \<Longrightarrow> k \<notin> K \<Longrightarrow> this_prop t k = this_prop s k"
  by (auto simp: only_def this_prop_def split: option.splits)

lemma only_is_global: "only K s t \<Longrightarrow> IsGlobal \<notin> K \<Longrightarrow> is_global t = is_global s"
  by (simp add: is_global_def only_this_prop)

lemma only_context_prop:
  "only K s t \<Longrightarrow> IsGlobal \<notin> K \<Longrightarrow> k \<notin> K \<Longrightarrow> context_prop t k = context_prop s k"
  by (simp add: context_prop_def only_is_global only_this_prop only_win get_prop_def)

lemma only_updates [simp]:
  "only K s (s\<lparr>trace := tr\<rparr>)"
  "only K s (s\<lparr>pending := pe\<rparr>)"
  "only K s (s\<lparr>timeouts := ti\<rparr>)"
  "only K s (s\<lparr>settings := se\<rparr>)"
  "only K s (s\<lparr>awaiting_load := aw\<rparr>)"
  "only K s (s\<lparr>ctx := cx\<rparr>)"
  by (simp_all add: only_def)

lemma only_setProperty: "only {p} s (p5_setProperty p v s)"
  by (simp add: only_def)

lemma only_runFrames: "only {UpdateInterval} s (p5_runFrames s)"
  by (simp add: only_def)

lemma only_original_loader [simp]: "only K s (original_loader f path b s)"
  by (simp add: only_def)

lemma only_preload: "only {PreloadDashCount} s (snd (p5_preload f path s))"
  by (simp add: p5_preload_def Let_def only_def)

lemma only_call_loader: "only {PreloadDashCount} s (snd (call_loader v path s))"
  by (cases "(v, path, s)" rule: call_loader.cases)
     (auto simp: only_preload split: option.splits)

lemma only_exec_action: "only action_keys s (snd (exec_action a s))"
proof (cases a)
  case (Load f path)
  have "{PreloadDashCount} \<subseteq> action_keys" by (simp add: action_keys_def)
  with only_call_loader show ?thesis
    unfolding Load by (auto intro: only_mono)
next
  case (SetTargetFrameRate r)
  have "{TargetFrameRate} \<subseteq> action_keys" by (simp add: action_keys_def)
  with only_setProperty show ?thesis
    unfolding SetTargetFrameRate by (auto intro: only_mono)
next
  case RunFrames
  have "{UpdateInterval} \<subseteq> action_keys" by (simp add: action_keys_def)
  with only_runFrames show ?thesis
    unfolding RunFrames by (auto intro: only_mono)
qed simp_all

lemma only_run_actions: "only action_keys s (snd (run_actions as s))"
proof (induction as arbitrary: s)
  case Nil
  then show ?case by simp
next
  case (Cons a as)
  show ?case
  proof (cases "exec_action a s")
    case (Pair err s')
    have step: "only action_keys s s'"
      using only_exec_action [of s a] Pair by simp
    show ?thesis
    proof (cases err)
      case None
      with Pair step Cons.IH [of s'] show ?thesis
        by (auto intro: only_trans)
    next
      case (Some e)
      with Pair step show ?thesis by simp
    qed
  qed
qed

lemma only_call_user: "only action_keys s (snd (call_user n v s))"
proof (cases v)
  case (VFun f)
  show ?thesis
  proof (cases f)
    case (User as)
    have "only action_keys s (s\<lparr>trace := trace s @ [Invoked n]\<rparr>)" by simp
    then have "only action_keys s (snd (run_actions as (s\<lparr>trace := trace s @ [Invoked n]\<rparr>)))"
      by (rule only_trans) (rule only_run_actions)
    then show ?thesis by (simp add: VFun User)
  qed (simp_all add: VFun)
qed simp_all

lemma only_call_if_function: "only action_keys s (snd (call_if_function n v s))"
  by (simp add: call_if_function_def only_call_user)

lemma only_andthen:
  assumes "\<And>t. only K t (snd (f t))" and "\<And>t. only K t (snd (g t))"
  shows "only K s (snd (andthen f g s))"
proof (cases "f s")
  case (Pair err s')
  with assms(1) [of s] have 1: "only K s s'" by simp
  show ?thesis
  proof (cases err)
    case None
    with Pair 1 assms(2) [of s'] show ?thesis
      by (auto simp: andthen_def intro: only_trans)
  next
    case (Some e)
    with Pair 1 show ?thesis by (simp add: andthen_def)
  qed
qed

lemma only_setup: "only action_keys s (snd (p5_setup s))"
  by (simp add: p5_setup_def Let_def only_call_if_function)

lemma action_keys_loop_keys: "action_keys \<subseteq> loop_keys"
  by (auto simp: action_keys_def loop_keys_def)

lemma only_measure_rate: "only {FrameRate, LastFrameTime} s (measure_rate now s)"
  by (simp add: only_def)

lemma only_schedule_next [simp]: "only K s (schedule_next s)"
  by (simp add: only_def)

lemma only_reset_transform [simp]: "only K s (snd (reset_transform s))"
  by (cases "this_prop s CurElement") (simp_all add: reset_transform_def only_def)

lemma only_draw: "only loop_keys s (snd (p5_draw now s))"
proof -
  have "{FrameRate, LastFrameTime} \<subseteq> loop_keys" by (simp add: loop_keys_def)
  with only_measure_rate have "only loop_keys s (measure_rate now s)"
    by (rule only_mono)
  then have 1: "only loop_keys s (schedule_next (measure_rate now s))"
    by (rule only_trans) simp
  have 2: "only loop_keys t (snd (call_if_function Draw u t))" for t u
    using only_mono [OF only_call_if_function action_keys_loop_keys] .
  have 3: "only loop_keys t (snd (reset_transform t))" for t by simp
  show ?thesis
    unfolding p5_draw_def Let_def
    by (rule only_trans [OF 1]) (rule only_andthen [OF 2 3])
qed

lemma only_begin_loop: "only loop_keys s (snd (begin_loop now s))"
proof -
  have 1: "only loop_keys t (snd (p5_setup t))" for t
    using only_mono [OF only_setup action_keys_loop_keys] .
  have "{UpdateInterval} \<subseteq> loop_keys" by (simp add: loop_keys_def)
  with only_runFrames have "only loop_keys t (p5_runFrames t)" for t
    by (rule only_mono)
  then have 2: "only loop_keys t (snd (p5_draw now (p5_runFrames t)))" for t
    by (rule only_trans) (rule only_draw)
  show ?thesis
    unfolding begin_loop_def by (rule only_andthen [OF 1 2])
qed

lemma only_preload_done: "only loop_keys s (snd (preload_done now s))"
proof -
  let ?s1 = "p5_setProperty PreloadDashCount
                 (VNum (js_sub (num_of (context_prop s PreloadCount)) (Fin 1))) s"
  have "{PreloadDashCount} \<subseteq> loop_keys" by (simp add: loop_keys_def)
  with only_setProperty have 1: "only loop_keys s ?s1"
    by (rule only_mono)
  from 1 have 2: "only loop_keys s (snd (begin_loop now ?s1))"
    by (rule only_trans) (rule only_begin_loop)
  show ?thesis
    unfolding preload_done_def Let_def using 1 2 by simp
qed

lemma only_ticker: "only {FrameCount} s (ticker s)"
  by (simp add: ticker_def only_setProperty)

section \<open>User actions and the timers\<close>

lemma preload_fields [simp]:
  "timeouts (snd (p5_preload f path s)) = timeouts s"
  "intervals (snd (p5_preload f path s)) = intervals s"
  "trace (snd (p5_preload f path s)) = trace s"
  "awaiting_load (snd (p5_preload f path s)) = awaiting_load s"
  "ctx (snd (p5_preload f path s)) = ctx s"
  "settings (snd (p5_preload f path s)) = settings s"
  by (simp_all add: p5_preload_def Let_def)

lemma call_loader_fields [simp]:
  "timeouts (snd (call_loader v path s)) = timeouts s"
  "intervals (snd (call_loader v path s)) = intervals s"
  "trace (snd (call_loader v path s)) = trace s"
  "awaiting_load (snd (call_loader v path s)) = awaiting_load s"
  "ctx (snd (call_loader v path s)) = ctx s"
  "settings (snd (call_loader v path s)) = settings s"
  by (cases "(v, path, s)" rule: call_loader.cases; simp split: option.splits)+

lemma exec_action_fields [simp]:
  "timeouts (snd (exec_action a s)) = timeouts s"
  "trace (snd (exec_action a s)) = trace s"
  "awaiting_load (snd (exec_action a s)) = awaiting_load s"
  "ctx (snd (exec_action a s)) = ctx s"
  by (cases a; simp)+

lemma exec_action_intervals: "RunFrames \<noteq> a \<Longrightarrow> intervals (snd (exec_action a s)) = intervals s"
  by (cases a) simp_all

lemma run_actions_Cons:
  "run_actions (a # as) s =
     (case fst (exec_action a s) of
        None \<Rightarrow> run_actions as (snd (exec_action a s))
      | Some e \<Rightarrow> (Some e, snd (exec_action a s)))"
  by (cases "exec_action a s") (simp split: option.splits)

lemma run_actions_fields [simp]:
  "timeouts (snd (run_actions as s)) = timeouts s"
  "trace (snd (run_actions as s)) = trace s"
  "awaiting_load (snd (run_actions as s)) = awaiting_load s"
  "ctx (snd (run_actions as s)) = ctx s"
  by (induction as arbitrary: s;
      simp add: run_actions_Cons split: option.splits del: run_actions.simps(2))+

lemma run_actions_intervals:
  "RunFrames \<notin> set as \<Longrightarrow> intervals (snd (run_actions as s)) = intervals s"
  by (induction as arbitrary: s)
     (simp_all add: run_actions_Cons exec_action_intervals split: option.splits
        del: run_actions.simps(2))

lemma call_user_timeouts [simp]: "timeouts (snd (call_user n v s)) = timeouts s"
  by (cases "(n, v, s)" rule: call_user.cases) simp_all

lemma call_user_awaiting [simp]: "awaiting_load (snd (call_user n v s)) = awaiting_load s"
  by (cases "(n, v, s)" rule: call_user.cases) simp_all

lemma call_if_function_fields [simp]:
  "timeouts (snd (call_if_function n v s)) = timeouts s"
  "awaiting_load (snd (call_if_function n v s)) = awaiting_load s"
  by (simp_all add: call_if_function_def)

lemma call_user_trace_User:
  "trace (snd (call_user n (VFun (User as)) s)) = trace s @ [Invoked n]"
  by simp

lemma reset_transform_fields [simp]:
  "timeouts (snd (reset_transform s)) = timeouts s"
  "intervals (snd (reset_transform s)) = intervals s"
  "trace (snd (reset_transform s)) = trace s"
  "awaiting_load (snd (reset_transform s)) = awaiting_load s"
  "pending (snd (reset_transform s)) = pending s"
  "settings (snd (reset_transform s)) = settings s"
  by (cases "this_prop s CurElement"; simp add: reset_transform_def)+

lemma andthen_cases:
  "andthen f g s = (case fst (f s) of None \<Rightarrow> g (snd (f s)) | Some e \<Rightarrow> (Some e, snd (f s)))"
  by (cases "f s") (simp add: andthen_def split: option.splits)

lemma frame_delay_measure_rate [simp]: "frame_delay (measure_rate now s) = frame_delay s"
  by (simp add: frame_delay_def this_prop_alt)

lemma userDraw_measure_rate [simp]: "userDraw (measure_rate now s) = userDraw s"
  by (simp add: userDraw_def this_prop_alt)

text \<open>The draw driver, step by step.\<close>

lemma p5_draw_unfold:
  "p5_draw now s =
     andthen (call_if_function Draw (userDraw s)) reset_transform
       (schedule_next (measure_rate now s))"
  using userDraw_measure_rate [of now s]
  by (simp add: p5_draw_def Let_def userDraw_def)

lemma p5_draw_timeouts:
  "timeouts (snd (p5_draw now s)) = timeouts s @ (if looping s then [frame_delay s] else [])"
  by (simp add: p5_draw_unfold andthen_cases looping_def split: option.splits)

lemma p5_draw_awaiting [simp]: "awaiting_load (snd (p5_draw now s)) = awaiting_load s"
  by (simp add: p5_draw_unfold andthen_cases split: option.splits)

lemma p5_draw_trace_User:
  "userDraw s = VFun (User as) \<Longrightarrow> trace (snd (p5_draw now s)) = trace s @ [Invoked Draw]"
  by (simp add: p5_draw_unfold andthen_cases call_if_function_def split: option.splits)

lemma p5_draw_intervals:
  "userDraw s = VFun (User as) \<Longrightarrow> RunFrames \<notin> set as \<Longrightarrow>
   intervals (snd (p5_draw now s)) = intervals s"
  by (simp add: p5_draw_unfold andthen_cases call_if_function_def run_actions_intervals
        split: option.splits)

lemma p5_draw_frameRate:
  "this_prop (snd (p5_draw now s)) FrameRate =
     VNum (js_div (Fin 1000) (js_sub (Fin (of_int now)) (num_of (this_prop s LastFrameTime))))"
proof -
  let ?s3 = "schedule_next (measure_rate now s)"
  have a: "this_prop ?s3 FrameRate =
      VNum (js_div (Fin 1000) (js_sub (Fin (of_int now)) (num_of (this_prop s LastFrameTime))))"
    by (simp add: this_prop_alt)
  have "only action_keys t (snd (call_if_function Draw u t))" for t u
    by (rule only_call_if_function)
  moreover have "only action_keys t (snd (reset_transform t))" for t by simp
  ultimately have "only action_keys ?s3 (snd (p5_draw now s))"
    unfolding p5_draw_unfold by (rule only_andthen)
  then have "this_prop (snd (p5_draw now s)) FrameRate = this_prop ?s3 FrameRate"
    by (rule only_this_prop) (simp add: action_keys_def)
  with a show ?thesis by simp
qed

section \<open>The start of the lifecycle\<close>

lemma only_createCanvas: "only {CurElement} s (createCanvas s)"
  by (simp add: only_def)

lemma loader_of_None_iff: "(loader_of k = None) = (k \<notin> range Loader)"
  by (cases k) auto

lemma only_install_wrappers: "only (range Loader) s (install_wrappers g s)"
  by (auto simp: only_def loader_of_None_iff [symmetric])

lemma only_restore_loaders: "only (range Loader) s (restore_loaders g s)"
  by (auto simp: only_def loader_of_None_iff [symmetric])

lemma only_start: "only start_keys s (snd (p5_start now s))"
proof -
  let ?c = "createCanvas s"
  have sub: "{CurElement} \<subseteq> start_keys" "range Loader \<subseteq> start_keys"
    "action_keys \<subseteq> start_keys" "loop_keys \<subseteq> start_keys"
    by (auto simp: start_keys_def action_keys_def loop_keys_def)
  have c: "only start_keys s ?c"
    using only_createCanvas sub(1) by (rule only_mono)
  have loop: "only start_keys s (snd (begin_loop now ?c))"
    using c only_mono [OF only_begin_loop sub(4)] by (rule only_trans)
  have w: "only start_keys s (install_wrappers g ?c)" for g
    using c only_mono [OF only_install_wrappers sub(2)] by (rule only_trans)
  have u: "only start_keys s (snd (call_user Preload v (install_wrappers g ?c)))" for g v
    using w only_mono [OF only_call_user sub(3)] by (rule only_trans)
  have r: "only start_keys s (restore_loaders g (snd (call_user Preload v (install_wrappers g ?c))))"
    for g v
    using u only_mono [OF only_restore_loaders sub(2)] by (rule only_trans)
  show ?thesis
    unfolding p5_start_def Let_def
    using loop u r by (simp split: prod.splits option.splits) (metis snd_conv)
qed

lemma setup_awaiting [simp]: "awaiting_load (snd (p5_setup s)) = awaiting_load s"
  by (simp add: p5_setup_def Let_def)

lemma begin_loop_awaiting [simp]: "awaiting_load (snd (begin_loop now s)) = awaiting_load s"
  by (simp add: begin_loop_def andthen_cases split: option.splits)

lemma preload_done_awaiting [simp]: "awaiting_load (snd (preload_done now s)) = awaiting_load s"
  by (simp add: preload_done_def Let_def)

lemma start_awaiting [simp]: "awaiting_load (snd (p5_start now s)) = awaiting_load s"
  by (simp add: p5_start_def Let_def split: prod.splits option.splits)
     (metis call_user_awaiting createCanvas_fields(11) install_wrappers_fields(11) snd_conv)

lemma handle_awaiting: "\<not> awaiting_load s \<Longrightarrow> \<not> awaiting_load (snd (handle e s))"
  by (cases e) (simp_all add: listener_def)

lemma step_alt:
  "step e s =
     (case fst (handle e s) of
        None \<Rightarrow> snd (handle e s)
      | Some err \<Rightarrow> (snd (handle e s))\<lparr>trace := trace (snd (handle e s)) @ [Uncaught err]\<rparr>)"
  by (cases "handle e s") (simp add: step_def split: option.splits)

lemma step_awaiting: "\<not> awaiting_load s \<Longrightarrow> \<not> awaiting_load (step e s)"
  using handle_awaiting [of s e] by (simp add: step_alt split: option.splits)

lemma run_awaiting: "\<not> awaiting_load s \<Longrightarrow> \<not> awaiting_load (run es s)"
  by (induction es arbitrary: s) (simp_all add: step_awaiting)

text \<open>What an event can write when it is not the load event.\<close>

lemma only_handle:
  "\<not> awaiting_load s \<Longrightarrow> only (insert FrameCount loop_keys) s (snd (handle e s))"
proof (cases e)
  case (HostReady now)
  assume "\<not> awaiting_load s"
  then show ?thesis by (simp add: HostReady)
next
  case (Complete i now)
  have "only loop_keys s (snd (preload_done now (s\<lparr>pending := remove_nth i (pending s)\<rparr>)))"
    by (rule only_trans [OF _ only_preload_done]) simp
  then have "only (insert FrameCount loop_keys) s
      (snd (preload_done now (s\<lparr>pending := remove_nth i (pending s)\<rparr>)))"
    by (rule only_mono) auto
  then show ?thesis by (simp add: Complete)
next
  case (Tick h)
  have "only (insert FrameCount loop_keys) s (ticker s)"
    using only_ticker by (rule only_mono) simp
  then show ?thesis by (simp add: Tick)
next
  case (DrawTimer i now)
  have "only loop_keys s (snd (p5_draw now (s\<lparr>timeouts := remove_nth i (timeouts s)\<rparr>)))"
    by (rule only_trans [OF _ only_draw]) simp
  then have "only (insert FrameCount loop_keys) s
      (snd (p5_draw now (s\<lparr>timeouts := remove_nth i (timeouts s)\<rparr>)))"
    by (rule only_mono) auto
  then show ?thesis by (simp add: DrawTimer)
next
  case (Input ev)
  have "only (insert FrameCount loop_keys) s (snd (call_user (On ev) v s))" for v
    using only_call_user by (rule only_mono) (auto simp: action_keys_def loop_keys_def)
  then show ?thesis by (simp add: Input listener_def)
qed

lemma only_step:
  "\<not> awaiting_load s \<Longrightarrow> only (insert FrameCount loop_keys) s (step e s)"
proof -
  assume a: "\<not> awaiting_load s"
  obtain err s' where h: "handle e s = (err, s')" by (cases "handle e s")
  with only_handle [OF a, of e] have 1: "only (insert FrameCount loop_keys) s s'" by simp
  have 2: "only (insert FrameCount loop_keys) s' (s'\<lparr>trace := tr\<rparr>)" for tr by simp
  show ?thesis
    using h 1 only_trans [OF 1 2] by (cases err) (simp_all add: step_def)
qed

lemma only_run:
  "\<not> awaiting_load s \<Longrightarrow> only (insert FrameCount loop_keys) s (run es s)"
proof (induction es arbitrary: s)
  case Nil
  then show ?case by simp
next
  case (Cons e es)
  from Cons.prems have 1: "only (insert FrameCount loop_keys) s (step e s)"
    by (rule only_step)
  from Cons.prems have "\<not> awaiting_load (step e s)" by (rule step_awaiting)
  then have "only (insert FrameCount loop_keys) (step e s) (run es (step e s))"
    by (rule Cons.IH)
  with 1 show ?case by (auto intro: only_trans)
qed

section \<open>Evaluating concrete runs\<close>

text \<open>
  The equations that unfold the lifecycle functions on a concrete sketch; the state
  stays a composition of operations and is only ever read through the field equations
  above.
\<close>

lemmas lookups =
  this_prop_alt is_global_def context_prop_def get_prop_alt js_or_def
  own_props_named own_props_keys_named p5_methods_named settings0_named map_of_Cons_code

lemmas lifecycle =
  p5_def p5_start_def begin_loop_def andthen_def call_if_function_def p5_setup_def p5_draw_def preload_done_def
  p5_preload_def step_def Let_def listener_def reset_transform_def frame_delay_def
  js_sub_def remove_nth_def booted_def invocations_def input_events_def

lemmas sketches =
  page_def empty_sketch_def two_loads_def no_loads_def slows_down_def
  stops_looping_def throwing_draw_def throwing_preload_def one_load_def with_mouse_def


section \<open>Auxiliary facts about the notions of the statements\<close>

lemma invocations_Uncaught [simp]:
  "invocations n (s\<lparr>trace := trace s @ [Uncaught e]\<rparr>) = invocations n s"
  by (simp add: invocations_def)

lemma stmt_updates [simp]:
  "userDraw (s\<lparr>timeouts := ti\<rparr>) = userDraw s"
  "looping (s\<lparr>timeouts := ti\<rparr>) = looping s"
  "frame_delay (s\<lparr>timeouts := ti\<rparr>) = frame_delay s"
  "userDraw (s\<lparr>pending := pe\<rparr>) = userDraw s"
  "this_prop (s\<lparr>timeouts := ti\<rparr>) = this_prop s"
  "this_prop (s\<lparr>pending := pe\<rparr>) = this_prop s"
  "this_prop (s\<lparr>trace := tr\<rparr>) = this_prop s"
  "this_prop (s\<lparr>awaiting_load := aw\<rparr>) = this_prop s"
  by (simp_all add: userDraw_def looping_def frame_delay_def this_prop_alt fun_eq_iff)


section \<open>The claims\<close>

subsection \<open>C10: what the 2D primitives return\<close>

lemma returns_primitive:
  "has_context (this_prop s CurElement) \<Longrightarrow> returns (primitive os s) = Some ReturnsThis"
  by (simp add: primitive_def)

text \<open>
  C10. In a sketch that has a current element (before \<^verbatim>\<open>_start\<close> has created the
  canvas, \<^verbatim>\<open>this.curElement\<close> is null and every primitive raises a TypeError when it
  reaches for \<^verbatim>\<open>this.curElement.context\<close>), every 2D drawing primitive returns the
  p5 instance, except that \<^verbatim>\<open>line\<close> and \<^verbatim>\<open>point\<close> return undefined and leave
  the state as it is, drawing nothing, whenever the context's \<^verbatim>\<open>strokeStyle\<close> is
  \<^verbatim>\<open>'rgba(0,0,0,0)'\<close>; on any other stroke style \<^verbatim>\<open>line\<close> and \<^verbatim>\<open>point\<close>
  return the instance too.
\<close>

theorem C10_primitives_return:
  assumes "has_context (this_prop s CurElement)"
  shows "returns (p5_arc arcModeAdjust consts a b c d start stop mode s) = Some ReturnsThis \<and>
         returns (p5_ellipse modeAdjust a b c d s) = Some ReturnsThis \<and>
         returns (p5_quad x1 y1 x2 y2 x3 y3 x4 y4 s) = Some ReturnsThis \<and>
         returns (p5_rect modeAdjust a b c d s) = Some ReturnsThis \<and>
         returns (p5_triangle x1 y1 x2 y2 x3 y3 s) = Some ReturnsThis \<and>
         p5_line x1 y1 x2 y2 s =
           (if strokeStyle (ctx s) = transparent then Inr (ReturnsUndefined, s)
            else Inr (ReturnsThis, emit [BeginPath, MoveTo x1 y1, LineTo x2 y2, Stroke] s)) \<and>
         (if strokeStyle (ctx s) = transparent
          then p5_point consts x y s = Inr (ReturnsUndefined, s)
          else returns (p5_point consts x y s) = Some ReturnsThis)"
proof -
  have arc: "returns (p5_arc arcModeAdjust consts a b c d start stop mode s) = Some ReturnsThis"
    using assms by (simp add: p5_arc_def Let_def returns_primitive)
  have ellipse: "returns (p5_ellipse modeAdjust a b c d s) = Some ReturnsThis"
    using assms by (simp add: p5_ellipse_def Let_def returns_primitive)
  have quad: "returns (p5_quad x1 y1 x2 y2 x3 y3 x4 y4 s) = Some ReturnsThis"
    using assms by (simp add: p5_quad_def returns_primitive)
  have rect: "returns (p5_rect modeAdjust a b c d s) = Some ReturnsThis"
    using assms by (simp add: p5_rect_def Let_def returns_primitive)
  have triangle: "returns (p5_triangle x1 y1 x2 y2 x3 y3 s) = Some ReturnsThis"
    using assms by (simp add: p5_triangle_def returns_primitive)
  have line: "p5_line x1 y1 x2 y2 s =
           (if strokeStyle (ctx s) = transparent then Inr (ReturnsUndefined, s)
            else Inr (ReturnsThis, emit [BeginPath, MoveTo x1 y1, LineTo x2 y2, Stroke] s))"
    using assms by (simp add: p5_line_def primitive_def)
  have point: "if strokeStyle (ctx s) = transparent
          then p5_point consts x y s = Inr (ReturnsUndefined, s)
          else returns (p5_point consts x y s) = Some ReturnsThis"
    using assms by (simp add: p5_point_def Let_def returns_primitive)
  from arc ellipse quad rect triangle line point show ?thesis
    by (intro conjI)
qed

lemma booted_empty_has_canvas:
  "this_prop (booted page (Some empty_sketch)) CurElement = VObj ''canvas''"
  by (simp add: lookups lifecycle sketches)

theorem C10_primitives_return_witness:
  "has_context (this_prop (booted page (Some empty_sketch)) CurElement) \<and>
   returns (p5_quad (Fin 0) (Fin 0) (Fin 4) (Fin 0) (Fin 4) (Fin 3) (Fin 0) (Fin 3)
              (booted page (Some empty_sketch))) = Some ReturnsThis \<and>
   returns (p5_line (Fin 0) (Fin 0) (Fin 4) (Fin 3) (booted page (Some empty_sketch)))
     = Some ReturnsThis \<and>
   returns (p5_line (Fin 0) (Fin 0) (Fin 4) (Fin 3)
              ((booted page (Some empty_sketch))
                 \<lparr>ctx := (ctx (booted page (Some empty_sketch)))\<lparr>strokeStyle := transparent\<rparr>\<rparr>))
     = Some ReturnsUndefined"
proof -
  let ?s = "booted page (Some empty_sketch)"
  let ?t = "?s\<lparr>ctx := (ctx ?s)\<lparr>strokeStyle := transparent\<rparr>\<rparr>"
  have h: "has_context (this_prop ?s CurElement)"
    by (simp add: booted_empty_has_canvas)
  have h': "has_context (this_prop ?t CurElement)"
    using h by (simp add: this_prop_alt)
  have stroke: "strokeStyle (ctx ?s) \<noteq> transparent"
    by (simp add: lookups lifecycle sketches fresh_ctx_def transparent_def)
  from C10_primitives_return [OF h, where ?x1.0 = "Fin 0" and ?y1.0 = "Fin 0"
      and ?x2.0 = "Fin 4" and ?y2.0 = "Fin 0" and ?x3.0 = "Fin 4" and ?y3.0 = "Fin 3"
      and ?x4.0 = "Fin 0" and ?y4.0 = "Fin 3"]
  have quad: "returns (p5_quad (Fin 0) (Fin 0) (Fin 4) (Fin 0) (Fin 4) (Fin 3) (Fin 0) (Fin 3) ?s)
      = Some ReturnsThis"
    by simp
  from C10_primitives_return [OF h, where ?x1.0 = "Fin 0" and ?y1.0 = "Fin 0"
      and ?x2.0 = "Fin 4" and ?y2.0 = "Fin 3"] stroke
  have line: "returns (p5_line (Fin 0) (Fin 0) (Fin 4) (Fin 3) ?s) = Some ReturnsThis"
    by simp
  from C10_primitives_return [OF h', where ?x1.0 = "Fin 0" and ?y1.0 = "Fin 0"
      and ?x2.0 = "Fin 4" and ?y2.0 = "Fin 3"]
  have line': "returns (p5_line (Fin 0) (Fin 0) (Fin 4) (Fin 3) ?t) = Some ReturnsUndefined"
    by simp
  from h quad line line' show ?thesis by (intro conjI)
qed


subsection \<open>C5: the measured frame rate\<close>

text \<open>
  The claim fails on the code: two draw ticks at the same clock reading store
  \<^verbatim>\<open>1000.0/0\<close>, which is \<^verbatim>\<open>Infinity\<close>, in \<^verbatim>\<open>_frameRate\<close>. The sketch
  is constructed at clock 1000 (its first \<^verbatim>\<open>_draw\<close> runs then) and its draw timeout
  fires at clock 1000.
\<close>

theorem C5_zero_elapsed_counterexample:
  "this_prop (run [DrawTimer 0 1000] (booted page (Some empty_sketch))) FrameRate = VNum PInf \<and>
   \<not> finite_num PInf"
  by (simp add: lookups lifecycle sketches)

text \<open>
  C5, as amended. \<^verbatim>\<open>_draw\<close> stores \<^verbatim>\<open>1000.0/(now - this._lastFrameTime)\<close> in
  \<^verbatim>\<open>_frameRate\<close> with no clamping and no skipping: when the elapsed time is 0 the
  stored value is \<^verbatim>\<open>Infinity\<close>, and when it is not 0 the stored value is the finite
  quotient.
\<close>

theorem C5_measured_rate:
  assumes "this_prop s LastFrameTime = VNum (Fin (of_int before))"
  shows "this_prop (snd (p5_draw now s)) FrameRate =
           (if now = before then VNum PInf else VNum (Fin (1000 / of_int (now - before))))"
  using assms by (simp add: p5_draw_frameRate js_sub_def)

theorem C5_measured_rate_witness:
  "this_prop (booted page (Some empty_sketch)) LastFrameTime = VNum (Fin (of_int 1000)) \<and>
   this_prop (snd (p5_draw 1000 (booted page (Some empty_sketch)))) FrameRate = VNum PInf \<and>
   this_prop (snd (p5_draw 1016 (booted page (Some empty_sketch)))) FrameRate
     = VNum (Fin (125 / 2))"
proof -
  have h: "this_prop (booted page (Some empty_sketch)) LastFrameTime = VNum (Fin (of_int 1000))"
    by (simp add: lookups lifecycle sketches)
  from C5_measured_rate [OF h, of 1000] C5_measured_rate [OF h, of 1016] h
  show ?thesis by simp
qed


subsection \<open>C4: scheduling before the draw callback\<close>

text \<open>
  The claim fails on the code: the draw callback of this sketch sets
  \<^verbatim>\<open>settings.loop\<close> to false during its first invocation; the timeout that
  \<^verbatim>\<open>_draw\<close> had armed before calling it still fires, and the callback is invoked a
  second time.
\<close>

theorem C4_no_further_draw_counterexample:
  "userDraw (booted page (Some stops_looping)) = VFun (User [SetLoop False]) \<and>
   invocations Draw (booted page (Some stops_looping)) = 1 \<and>
   \<not> looping (booted page (Some stops_looping)) \<and>
   invocations Draw (run [DrawTimer 0 1017] (booted page (Some stops_looping))) = 2"
  by (simp add: lookups lifecycle sketches userDraw_def looping_def)

text \<open>
  C4, as amended. On every draw-driver tick the next draw invocation is scheduled if and
  only if looping is enabled when the tick begins, before the user draw callback is
  invoked; hence a draw callback that throws does not break future scheduling, and one
  that sets looping to false does not cancel the invocation that is already scheduled.
  The user draw callback is invoked on every tick, looping or not: after looping is set
  to false from within a draw invocation, the pending tick still invokes the callback
  once more and schedules nothing further. The counter ticker's timer is not touched by
  a tick of the draw driver (unless the callback itself calls \<^verbatim>\<open>_runFrames\<close>).
\<close>

theorem C4_draw_tick:
  assumes "i < length (timeouts s)" and "userDraw s = VFun (User as)"
  shows "invocations Draw (step (DrawTimer i now) s) = Suc (invocations Draw s) \<and>
         timeouts (step (DrawTimer i now) s) =
           remove_nth i (timeouts s) @ (if looping s then [frame_delay s] else []) \<and>
         (RunFrames \<notin> set as \<longrightarrow> intervals (step (DrawTimer i now) s) = intervals s)"
proof -
  let ?t = "s\<lparr>timeouts := remove_nth i (timeouts s)\<rparr>"
  have u: "userDraw ?t = VFun (User as)" using assms(2) by simp
  have h: "handle (DrawTimer i now) s = p5_draw now ?t" using assms(1) by simp
  have tr: "trace (snd (p5_draw now ?t)) = trace s @ [Invoked Draw]"
    using p5_draw_trace_User [OF u, of now] by simp
  have ti: "timeouts (snd (p5_draw now ?t)) =
      remove_nth i (timeouts s) @ (if looping s then [frame_delay s] else [])"
    by (simp add: p5_draw_timeouts)
  have iv: "RunFrames \<notin> set as \<Longrightarrow> intervals (snd (p5_draw now ?t)) = intervals s"
    using p5_draw_intervals [OF u, of now] by simp
  show ?thesis
    using tr ti iv assms(1) by (simp add: step_alt invocations_def split: option.splits)
qed

theorem C4_draw_tick_witness:
  "invocations Draw (step (DrawTimer 0 1017) (booted page (Some stops_looping))) = 2 \<and>
   timeouts (step (DrawTimer 0 1017) (booted page (Some stops_looping))) = [] \<and>
   intervals (step (DrawTimer 0 1017) (booted page (Some stops_looping))) = [(1, Fin (50 / 3))] \<and>
   timeouts (step (DrawTimer 0 1017) (booted page (Some throwing_draw))) = [Fin (50 / 3)] \<and>
   trace (step (DrawTimer 0 1017) (booted page (Some throwing_draw)))
     = [Invoked Draw, Invoked Draw, Uncaught UserError]"
proof -
  let ?s = "booted page (Some stops_looping)"
  let ?t = "booted page (Some throwing_draw)"
  have s: "timeouts ?s = [Fin (50 / 3)]" "userDraw ?s = VFun (User [SetLoop False])"
    "invocations Draw ?s = 1" "\<not> looping ?s" "intervals ?s = [(1, Fin (50 / 3))]"
    by (simp_all add: lookups lifecycle sketches userDraw_def looping_def)
  have t: "timeouts ?t = [Fin (50 / 3)]" "userDraw ?t = VFun (User [Throw])"
    "looping ?t" "frame_delay ?t = Fin (50 / 3)"
    by (simp_all add: lookups lifecycle sketches userDraw_def looping_def)
  have tt: "trace (step (DrawTimer 0 1017) ?t) = [Invoked Draw, Invoked Draw, Uncaught UserError]"
    by (simp add: lookups lifecycle sketches)
  have i0: "0 < length (timeouts ?s)" "0 < length (timeouts ?t)" using s t by simp_all
  from C4_draw_tick [OF i0(1) s(2), of 1017] C4_draw_tick [OF i0(2) t(2), of 1017] s t tt
  show ?thesis by (simp add: remove_nth_def)
qed


subsection \<open>C3: re-arming against the current target rate\<close>

text \<open>
  The claim fails on the code for the counter ticker. The draw callback of this sketch
  stores a target rate of 30 during the first draw tick, after \<^verbatim>\<open>_runFrames\<close> has
  armed the ticker at \<^verbatim>\<open>1000/60\<close>. Two firings of the ticker later its period is
  still \<^verbatim>\<open>1000/60\<close>, while \<^verbatim>\<open>1000/this._targetFrameRate\<close> is \<^verbatim>\<open>1000/30\<close>; the
  draw driver, at its next tick, does re-arm with \<^verbatim>\<open>1000/30\<close>.
\<close>

theorem C3_ticker_not_rearmed_counterexample:
  "intervals (run [Tick 1, Tick 1] (booted page (Some slows_down))) = [(1, Fin (50 / 3))] \<and>
   frame_delay (run [Tick 1, Tick 1] (booted page (Some slows_down))) = Fin (100 / 3) \<and>
   this_prop (run [Tick 1, Tick 1] (booted page (Some slows_down))) FrameCount = VNum (Fin 2) \<and>
   timeouts (run [Tick 1, Tick 1, DrawTimer 0 1017] (booted page (Some slows_down)))
     = [Fin (100 / 3)]"
  by (simp add: lookups lifecycle sketches)

text \<open>
  C3, as amended. The draw driver is re-armed on every tick (while looping is enabled)
  with the delay \<^verbatim>\<open>1000/targetFrameRate\<close> read at that tick, so a change of the
  target rate takes effect on its cadence within one cycle. The counter ticker is an
  interval timer: a firing does not re-arm it and leaves its period as it was armed; it
  is armed by \<^verbatim>\<open>_runFrames\<close>, with the period \<^verbatim>\<open>1000/targetFrameRate\<close> read at
  that call, after the timer that \<^verbatim>\<open>updateInterval\<close> refers to has been cancelled.
\<close>

theorem C3_rearming:
  "(i < length (timeouts s) \<longrightarrow>
      timeouts (step (DrawTimer i now) s) =
        remove_nth i (timeouts s) @ (if looping s then [frame_delay s] else [])) \<and>
   intervals (step (Tick h) s) = intervals s \<and>
   intervals (p5_runFrames s) =
     (if truthy (this_prop s UpdateInterval)
      then filter (\<lambda>t. VNum (Fin (of_nat (fst t))) \<noteq> this_prop s UpdateInterval) (intervals s)
      else intervals s) @ [(next_handle s, frame_delay s)]"
proof -
  have "timeouts (step (DrawTimer i now) s) =
        remove_nth i (timeouts s) @ (if looping s then [frame_delay s] else [])"
    if "i < length (timeouts s)"
    using that by (simp add: step_alt p5_draw_timeouts split: option.splits)
  moreover have "intervals (step (Tick h) s) = intervals s"
    by (simp add: step_def)
  ultimately show ?thesis by simp
qed

theorem C3_rearming_witness:
  "0 < length (timeouts (booted page (Some slows_down))) \<and>
   timeouts (step (DrawTimer 0 1017) (booted page (Some slows_down))) = [Fin (100 / 3)] \<and>
   intervals (step (Tick 1) (booted page (Some slows_down))) = [(1, Fin (50 / 3))] \<and>
   intervals (p5_runFrames (booted page (Some slows_down))) = [(3, Fin (100 / 3))]"
proof -
  let ?s = "booted page (Some slows_down)"
  have s: "timeouts ?s = [Fin (50 / 3)]" "intervals ?s = [(1, Fin (50 / 3))]" "looping ?s"
    "frame_delay ?s = Fin (100 / 3)" "this_prop ?s UpdateInterval = VNum (Fin 1)"
    "next_handle ?s = 3"
    by (simp_all add: lookups lifecycle sketches looping_def)
  from C3_rearming [of 0 ?s 1017 1] s show ?thesis
    by (simp add: remove_nth_def)
qed


subsection \<open>C6: input events in instance mode\<close>

text \<open>
  The claim fails on the code: the sketch attaches no handler, the listener of
  \<^verbatim>\<open>mousemove\<close> calls \<^verbatim>\<open>this.onmousemove(e)\<close> all the same, and calling
  undefined is a TypeError.
\<close>

theorem C6_missing_handler_counterexample:
  "Mousemove \<in> set (listeners (booted page (Some empty_sketch))) \<and>
   this_prop (booted page (Some empty_sketch)) (On Mousemove) = VUndefined \<and>
   fst (handle (Input Mousemove) (booted page (Some empty_sketch))) = Some TypeError \<and>
   trace (step (Input Mousemove) (booted page (Some empty_sketch))) = [Uncaught TypeError]"
  by (simp add: lookups lifecycle sketches)

lemma listeners_booted: "listeners (booted h (Some sketch)) = input_events"
proof -
  let ?s = "bind_instance h sketch (created h VUndefined)"
  have "listeners (snd (p5_start now ?s)) = listeners ?s" for now
    using only_start by (rule only_listeners)
  then show ?thesis
    by (simp add: booted_def p5_def Let_def)
qed

text \<open>
  C6, as amended. In instance mode every recognized input-event category has a listener,
  and the listener calls the identically-named handler method of the instance without
  looking whether there is one: a handler that the user has defined is invoked; when the
  instance has no such handler the call raises a TypeError, which nothing catches (the
  event is not skipped silently).
\<close>

theorem C6_listeners:
  "listeners (booted h (Some sketch)) = input_events \<and>
   (ev \<in> set (listeners s) \<longrightarrow>
      (\<forall>as. this_prop s (On ev) = VFun (User as) \<longrightarrow>
         handle (Input ev) s = run_actions as (s\<lparr>trace := trace s @ [Invoked (On ev)]\<rparr>)) \<and>
      (this_prop s (On ev) = VUndefined \<longrightarrow> handle (Input ev) s = (Some TypeError, s)))"
  by (simp add: listeners_booted listener_def)

theorem C6_listeners_witness:
  "listeners (booted page (Some with_mouse)) = input_events \<and>
   Mousemove \<in> set (listeners (booted page (Some with_mouse))) \<and>
   this_prop (booted page (Some with_mouse)) (On Mousemove) = VFun (User [SetLoop False]) \<and>
   trace (snd (handle (Input Mousemove) (booted page (Some with_mouse)))) = [Invoked (On Mousemove)] \<and>
   this_prop (booted page (Some with_mouse)) (On Keydown) = VUndefined \<and>
   handle (Input Keydown) (booted page (Some with_mouse))
     = (Some TypeError, booted page (Some with_mouse))"
proof -
  let ?s = "booted page (Some with_mouse)"
  have l: "listeners ?s = input_events"
    using C6_listeners [of page with_mouse Mousemove ?s] by simp
  have m: "Mousemove \<in> set (listeners ?s)" "Keydown \<in> set (listeners ?s)"
    by (simp_all add: l input_events_def)
  have h: "this_prop ?s (On Mousemove) = VFun (User [SetLoop False])"
    "this_prop ?s (On Keydown) = VUndefined"
    by (simp_all add: lookups lifecycle sketches)
  have tr: "trace ?s = []"
    by (simp add: lookups lifecycle sketches)
  from C6_listeners [of page with_mouse Mousemove ?s] m(1) h(1)
  have 1: "handle (Input Mousemove) ?s =
      run_actions [SetLoop False] (?s\<lparr>trace := trace ?s @ [Invoked (On Mousemove)]\<rparr>)"
    by blast
  from C6_listeners [of page with_mouse Keydown ?s] m(2) h(2)
  have 2: "handle (Input Keydown) ?s = (Some TypeError, ?s)"
    by blast
  have "trace (snd (handle (Input Mousemove) ?s)) = [Invoked (On Mousemove)]"
    unfolding 1 by (simp add: tr)
  with l m h 2 show ?thesis by simp
qed


subsection \<open>C7: the property mirror\<close>

lemma win_FrameCount_global: "win (booted h None) FrameCount \<noteq> None"
proof -
  let ?s = "bind_global h VUndefined (created h VUndefined)"
  have "FrameCount \<notin> start_keys"
    by (auto simp: start_keys_def loop_keys_def)
  with only_start have "win (snd (p5_start now ?s)) FrameCount = win ?s FrameCount" for now
    by (rule only_win)
  moreover have "win ?s FrameCount \<noteq> None"
    by (simp add: own_props_keys_named get_prop_alt own_props_named split: option.splits)
  ultimately show ?thesis
    by (simp add: booted_def p5_def Let_def)
qed

text \<open>
  C7. For every property name and value, \<^verbatim>\<open>_setProperty\<close> sets the instance
  attribute of that name to the value and, if and only if the instance is in global mode,
  sets the identically named attribute of the window to the same value, leaving the
  window untouched in instance mode. The mode is the one that \<^verbatim>\<open>_setProperty\<close> tests,
  after the assignment to the instance; the assignment leaves it as it was before the
  call for every name but that of the mode flag, and the call leaves it as it tested it.
  Hence in global mode the window's \<^verbatim>\<open>frameCount\<close> exists as soon as the constructor
  returns and equals the instance's after every \<^verbatim>\<open>_setProperty\<close> of it.
\<close>

theorem C7_setProperty:
  "inst (p5_setProperty p v s) = (inst s)(p \<mapsto> v) \<and>
   win (p5_setProperty p v s)
     = (if is_global (s\<lparr>inst := (inst s)(p \<mapsto> v)\<rparr>) then (win s)(p \<mapsto> v) else win s) \<and>
   is_global (p5_setProperty p v s) = is_global (s\<lparr>inst := (inst s)(p \<mapsto> v)\<rparr>) \<and>
   (p \<noteq> IsGlobal \<longrightarrow> is_global (s\<lparr>inst := (inst s)(p \<mapsto> v)\<rparr>) = is_global s) \<and>
   win (booted h None) FrameCount \<noteq> None \<and>
   (is_global s \<longrightarrow>
      win (p5_setProperty FrameCount v s) FrameCount = Some v \<and>
      inst (p5_setProperty FrameCount v s) FrameCount = Some v)"
  by (auto simp: fun_eq_iff is_global_def this_prop_alt win_FrameCount_global)

theorem C7_setProperty_witness:
  "is_global (booted page None) \<and>
   win (booted page None) FrameCount = Some (VNum (Fin 0)) \<and>
   win (p5_setProperty FrameCount (VNum (Fin 7)) (booted page None)) FrameCount
     = Some (VNum (Fin 7)) \<and>
   inst (p5_setProperty FrameCount (VNum (Fin 7)) (booted page None)) FrameCount
     = Some (VNum (Fin 7)) \<and>
   \<not> is_global (booted page (Some empty_sketch)) \<and>
   inst (p5_setProperty FrameCount (VNum (Fin 7)) (booted page (Some empty_sketch))) FrameCount
     = Some (VNum (Fin 7)) \<and>
   win (p5_setProperty FrameCount (VNum (Fin 7)) (booted page (Some empty_sketch)))
     = win (booted page (Some empty_sketch))"
proof -
  let ?g = "booted page None"
  let ?i = "booted page (Some empty_sketch)"
  have g: "is_global ?g" "win ?g FrameCount = Some (VNum (Fin 0))"
    by (simp_all add: lookups lifecycle sketches)
  have i: "\<not> is_global ?i"
    by (simp add: lookups lifecycle sketches)
  have ne: "FrameCount \<noteq> IsGlobal" by simp
  from C7_setProperty [of FrameCount "VNum (Fin 7)" ?g page] g
  have 1: "win (p5_setProperty FrameCount (VNum (Fin 7)) ?g) FrameCount = Some (VNum (Fin 7))"
    "inst (p5_setProperty FrameCount (VNum (Fin 7)) ?g) FrameCount = Some (VNum (Fin 7))"
    by blast+
  from C7_setProperty [of FrameCount "VNum (Fin 7)" ?i page] i ne
  have 2: "win (p5_setProperty FrameCount (VNum (Fin 7)) ?i) = win ?i"
    "inst (p5_setProperty FrameCount (VNum (Fin 7)) ?i) FrameCount = Some (VNum (Fin 7))"
    by simp_all
  from g i 1 2 show ?thesis by simp
qed

subsection \<open>C8: the frame counter\<close>

lemma frameCount_keys:
  "FrameCount \<notin> start_keys" "FrameCount \<notin> loop_keys" "FrameCount \<notin> action_keys"
  by (auto simp: start_keys_def loop_keys_def action_keys_def)

lemma handle_frameCount:
  "this_prop (snd (handle e s)) FrameCount =
     (if live_tick e s then VNum (to_double (js_add (num_of (this_prop s FrameCount)) (Fin 1)))
      else this_prop s FrameCount)"
proof (cases e)
  case (HostReady now)
  have "this_prop (snd (p5_start now (s\<lparr>awaiting_load := False\<rparr>))) FrameCount
      = this_prop (s\<lparr>awaiting_load := False\<rparr>) FrameCount"
    using only_start frameCount_keys(1) by (rule only_this_prop)
  then show ?thesis by (simp add: HostReady)
next
  case (Complete i now)
  have "this_prop (snd (preload_done now (s\<lparr>pending := remove_nth i (pending s)\<rparr>))) FrameCount
      = this_prop (s\<lparr>pending := remove_nth i (pending s)\<rparr>) FrameCount"
    using only_preload_done frameCount_keys(2) by (rule only_this_prop)
  then show ?thesis by (simp add: Complete)
next
  case (Tick h)
  then show ?thesis by (simp add: this_prop_alt)
next
  case (DrawTimer i now)
  have "this_prop (snd (p5_draw now (s\<lparr>timeouts := remove_nth i (timeouts s)\<rparr>))) FrameCount
      = this_prop (s\<lparr>timeouts := remove_nth i (timeouts s)\<rparr>) FrameCount"
    using only_draw frameCount_keys(2) by (rule only_this_prop)
  then show ?thesis by (simp add: DrawTimer)
next
  case (Input ev)
  have "this_prop (snd (call_user (On ev) v s)) FrameCount = this_prop s FrameCount" for v
    using only_call_user frameCount_keys(3) by (rule only_this_prop)
  then show ?thesis by (simp add: Input listener_def)
qed

lemma step_frameCount:
  "this_prop (step e s) FrameCount =
     (if live_tick e s then VNum (to_double (js_add (num_of (this_prop s FrameCount)) (Fin 1)))
      else this_prop s FrameCount)"
  using handle_frameCount [of e s] by (simp add: step_alt split: option.splits)

lemma run_frameCount:
  "this_prop s FrameCount = VNum (Fin (of_nat n)) \<Longrightarrow> n + fired es s \<le> 2 ^ 53 \<Longrightarrow>
   this_prop (run es s) FrameCount = VNum (Fin (of_nat (n + fired es s)))"
proof (induction es arbitrary: s n)
  case Nil
  then show ?case by simp
next
  case (Cons e es)
  let ?k = "if live_tick e s then 1 else 0 :: nat"
  have b: "n + ?k + fired es (step e s) \<le> 2 ^ 53"
    using Cons.prems(2) by (simp add: add.assoc)
  then have "Suc n \<le> 2 ^ 53" if "live_tick e s"
    using that by simp
  then have "to_double (Fin (of_nat (Suc n))) = Fin (of_nat (Suc n))" if "live_tick e s"
    using that by (simp only: to_double_of_nat)
  then have "this_prop (step e s) FrameCount = VNum (Fin (of_nat (n + ?k)))"
    using Cons.prems(1) by (simp add: step_frameCount add.commute)
  then have "this_prop (run es (step e s)) FrameCount
      = VNum (Fin (of_nat (n + ?k + fired es (step e s))))"
    using b by (rule Cons.IH)
  then show ?case by (simp add: add.assoc)
qed

lemma frameCount_booted_global: "this_prop (booted h None) FrameCount = VNum (Fin 0)"
proof -
  let ?s = "bind_global h VUndefined (created h VUndefined)"
  have "this_prop (snd (p5_start now ?s)) FrameCount = this_prop ?s FrameCount" for now
    using only_start frameCount_keys(1) by (rule only_this_prop)
  moreover have "this_prop ?s FrameCount = VNum (Fin 0)"
    by (simp add: this_prop_alt own_props_named)
  ultimately show ?thesis
    by (simp add: booted_def p5_def Let_def)
qed

lemma tick_mirror:
  "is_global s \<Longrightarrow> live_tick (Tick h) s \<Longrightarrow>
   win (step (Tick h) s) FrameCount = inst (step (Tick h) s) FrameCount"
  by (simp add: step_def)

text \<open>
  C8. Whatever events a run consists of (completions, draw ticks and input events whose
  callbacks change the target rate or re-arm the ticker, firings of the ticker itself),
  a frame count that is a natural number \<open>n\<close> before the run is, after the run,
  \<open>n\<close> plus the number of firings of a live counter ticker in the run: it goes up
  by exactly 1 at each firing and is never lowered or reset. This is for counts up to
  \<open>2 ^ 53\<close>, the range in which a double holds every natural number. The count starts
  at 0, and in global mode each firing writes the same value to the window (the property
  mirror).
\<close>

theorem C8_frameCount:
  "(this_prop s FrameCount = VNum (Fin (of_nat n)) \<and> n + fired es s \<le> 2 ^ 53 \<longrightarrow>
      this_prop (run es s) FrameCount = VNum (Fin (of_nat (n + fired es s)))) \<and>
   this_prop (booted h None) FrameCount = VNum (Fin 0) \<and>
   (is_global s \<and> live_tick (Tick t) s \<longrightarrow>
      win (step (Tick t) s) FrameCount = inst (step (Tick t) s) FrameCount)"
  by (simp add: run_frameCount frameCount_booted_global tick_mirror del: live_tick.simps)

theorem C8_frameCount_witness:
  "this_prop (booted page (Some slows_down)) FrameCount = VNum (Fin (of_nat 0)) \<and>
   fired [Tick 1, DrawTimer 0 1017, Tick 1, Input Mousemove, Tick 2, Tick 1]
     (booted page (Some slows_down)) = 3 \<and>
   (0::nat) + 3 \<le> 2 ^ 53 \<and>
   this_prop (run [Tick 1, DrawTimer 0 1017, Tick 1, Input Mousemove, Tick 2, Tick 1]
     (booted page (Some slows_down))) FrameCount = VNum (Fin 3) \<and>
   is_global (booted page None) \<and> live_tick (Tick 1) (booted page None) \<and>
   win (step (Tick 1) (booted page None)) FrameCount = Some (VNum (Fin 1))"
proof -
  let ?s = "booted page (Some slows_down)"
  let ?es = "[Tick 1, DrawTimer 0 1017, Tick 1, Input Mousemove, Tick 2, Tick 1]"
  let ?g = "booted page None"
  have h: "this_prop ?s FrameCount = VNum (Fin (of_nat 0))"
    by (simp add: lookups lifecycle sketches)
  have f: "fired ?es ?s = 3"
    by (simp add: lookups lifecycle sketches)
  have g: "is_global ?g" "live_tick (Tick 1) ?g"
    by (simp_all add: lookups lifecycle sketches)
  have i: "inst (step (Tick 1) ?g) FrameCount = Some (VNum (Fin 1))"
    by (simp add: lookups lifecycle sketches)
  from C8_frameCount [of ?s 0 ?es page 1] h f
  have 1: "this_prop (run ?es ?s) FrameCount = VNum (Fin 3)" by simp
  from C8_frameCount [of ?g 0 "[]" page 1] g i
  have 2: "win (step (Tick 1) ?g) FrameCount = Some (VNum (Fin 1))" by simp
  from h f 1 g 2 show ?thesis by simp
qed

subsection \<open>C9: the loaders after the preload phase\<close>

text \<open>
  The claim fails on the code when the preload callback throws after it has issued a
  request: the exception leaves \<^verbatim>\<open>_start\<close> before the four assignments that restore
  the loaders. The request completes, the barrier releases and setup runs; the loaders
  of the context are still the instrumented closures, so the load that the draw callback
  issues goes through \<^verbatim>\<open>_preload\<close>, and its completion runs setup a second time.
\<close>

theorem C9_throwing_preload_counterexample:
  "fst (p5 page (Some throwing_preload) VUndefined) = Some UserError \<and>
   invocations Setup (run [Complete 0 1010] (booted page (Some throwing_preload))) = 1 \<and>
   context_prop (run [Complete 0 1010] (booted page (Some throwing_preload))) (Loader LoadJSON)
     = VFun (Wrapper LoadJSON) \<and>
   pending (run [Complete 0 1010] (booted page (Some throwing_preload)))
     = [Request LoadJSON ''b'' True] \<and>
   invocations Setup (run [Complete 0 1010, Complete 0 1020] (booted page (Some throwing_preload)))
     = 2"
  by (simp add: lookups lifecycle sketches)

lemma userPreload_createCanvas [simp]: "userPreload (createCanvas s) = userPreload s"
  by (simp add: userPreload_def this_prop_alt)

lemma loader_keys:
  "Loader f \<notin> action_keys" "IsGlobal \<notin> action_keys"
  "Loader f \<notin> insert FrameCount loop_keys" "IsGlobal \<notin> insert FrameCount loop_keys"
  "IsGlobal \<notin> range Loader" "IsGlobal \<noteq> CurElement"
  by (auto simp: action_keys_def loop_keys_def)

lemma originals_iff:
  "originals s = (\<forall>f. get_prop (proto s) (Loader f) = VFun (Native (Loader f)))"
proof -
  have "set loaders = UNIV"
    using loader.exhaust by (auto simp: loaders_def)
  then show ?thesis by (simp add: originals_def list_all_iff)
qed

lemma restored_iff:
  "restored s = (\<forall>f. context_prop s (Loader f) = VFun (Native (Loader f)))"
proof -
  have "set loaders = UNIV"
    using loader.exhaust by (auto simp: loaders_def)
  then show ?thesis by (simp add: restored_def list_all_iff)
qed

lemma context_prop_restore_loaders:
  "context_prop (restore_loaders (is_global s) s) (Loader f) = get_prop (proto s) (Loader f)"
proof -
  have g: "is_global (restore_loaders b s) = is_global s" for b
    by (simp add: is_global_def this_prop_alt)
  show ?thesis
  proof (cases "is_global s")
    case True
    then show ?thesis
      using g [of True] by (simp add: context_prop_def get_prop_alt)
  next
    case False
    then show ?thesis
      using g [of False] by (simp add: context_prop_def this_prop_alt get_prop_alt)
  qed
qed

lemma start_restores:
  assumes "originals s" and "truthy (userPreload s)" and "fst (p5_start now s) = None"
  shows "restored (snd (p5_start now s))"
proof -
  let ?c = "createCanvas s"
  let ?g = "is_global ?c"
  let ?u = "call_user Preload (userPreload s) (install_wrappers ?g ?c)"
  have st: "p5_start now s =
      (case ?u of (None, s') \<Rightarrow> (None, restore_loaders ?g s') | (Some e, s') \<Rightarrow> (Some e, s'))"
    using assms(2) userPreload_createCanvas [of s]
    by (simp add: p5_start_def Let_def userPreload_def)
  from assms(3) have ok: "fst ?u = None"
    unfolding st by (cases ?u) (auto split: option.splits)
  then have res: "snd (p5_start now s) = restore_loaders ?g (snd ?u)"
    unfolding st by (cases ?u) (auto split: option.splits)
  have "only (range Loader) ?c (install_wrappers ?g ?c)"
    by (rule only_install_wrappers)
  then have w: "is_global (install_wrappers ?g ?c) = ?g"
    by (rule only_is_global) (rule loader_keys)
  have "only action_keys (install_wrappers ?g ?c) (snd ?u)"
    by (rule only_call_user)
  then have u: "is_global (snd ?u) = is_global (install_wrappers ?g ?c)"
      and p: "proto (snd ?u) = proto (install_wrappers ?g ?c)"
    by (simp_all add: only_is_global loader_keys only_proto)
  have g: "is_global (snd ?u) = ?g" using u w by simp
  have pr: "proto (snd ?u) = proto s" using p by simp
  have "context_prop (snd (p5_start now s)) (Loader f) = VFun (Native (Loader f))" for f
    using context_prop_restore_loaders [of "snd ?u" f] assms(1)
    by (simp add: res g pr originals_iff)
  then show ?thesis by (simp add: restored_iff)
qed

lemma restored_run:
  assumes "restored s" and "\<not> awaiting_load s"
  shows "restored (run es s)"
proof -
  have o: "only (insert FrameCount loop_keys) s (run es s)"
    using assms(2) by (rule only_run)
  have "context_prop (run es s) (Loader f) = context_prop s (Loader f)" for f
    using o loader_keys(4) loader_keys(3) by (rule only_context_prop)
  with assms(1) show ?thesis by (simp add: restored_iff)
qed

lemma restored_load:
  "restored s \<Longrightarrow> exec_action (Load f path) s = (None, original_loader f path False s)"
  by (simp add: restored_iff)

lemma installed_iff:
  "installed s = (\<forall>f. context_prop s (Loader f) = VFun (Wrapper f))"
proof -
  have "set loaders = UNIV"
    using loader.exhaust by (auto simp: loaders_def)
  then show ?thesis by (simp add: installed_def list_all_iff)
qed

lemma context_prop_install_wrappers:
  "context_prop (install_wrappers (is_global s) s) (Loader f) = VFun (Wrapper f)"
proof -
  have g: "is_global (install_wrappers b s) = is_global s" for b
    by (simp add: is_global_def this_prop_alt)
  show ?thesis
  proof (cases "is_global s")
    case True
    then show ?thesis
      using g [of True] by (simp add: context_prop_def get_prop_alt)
  next
    case False
    then show ?thesis
      using g [of False] by (simp add: context_prop_def this_prop_alt)
  qed
qed

lemma start_throws:
  assumes "truthy (userPreload s)" and "fst (p5_start now s) \<noteq> None"
  shows "installed (snd (p5_start now s))"
proof -
  let ?c = "createCanvas s"
  let ?g = "is_global ?c"
  let ?u = "call_user Preload (userPreload s) (install_wrappers ?g ?c)"
  have st: "p5_start now s =
      (case ?u of (None, s') \<Rightarrow> (None, restore_loaders ?g s') | (Some e, s') \<Rightarrow> (Some e, s'))"
    using assms(1) userPreload_createCanvas [of s]
    by (simp add: p5_start_def Let_def userPreload_def)
  from assms(2) have res: "snd (p5_start now s) = snd ?u"
    unfolding st by (cases ?u) (auto split: option.splits)
  have "only action_keys (install_wrappers ?g ?c) (snd ?u)"
    by (rule only_call_user)
  then have "context_prop (snd ?u) (Loader f) = context_prop (install_wrappers ?g ?c) (Loader f)"
    for f
    using loader_keys(2) loader_keys(1) by (rule only_context_prop)
  then show ?thesis
    by (simp add: installed_iff res context_prop_install_wrappers)
qed

lemma installed_run:
  assumes "installed s" and "\<not> awaiting_load s"
  shows "installed (run es s)"
proof -
  have o: "only (insert FrameCount loop_keys) s (run es s)"
    using assms(2) by (rule only_run)
  have "context_prop (run es s) (Loader f) = context_prop s (Loader f)" for f
    using o loader_keys(4) loader_keys(3) by (rule only_context_prop)
  with assms(1) show ?thesis by (simp add: installed_iff)
qed

lemma installed_load: "installed s \<Longrightarrow> exec_action (Load f path) s = p5_preload f path s"
  by (simp add: installed_iff)

text \<open>
  C9, as amended. The instrumented wrappers over \<^verbatim>\<open>loadJSON\<close>, \<^verbatim>\<open>loadStrings\<close>,
  \<^verbatim>\<open>loadXML\<close> and \<^verbatim>\<open>loadImage\<close> are replaced by the originals of the prototype
  as soon as the synchronous preload callback has returned normally, which is before any
  completion callback can fire and so before the barrier can release. Once they are
  restored, they remain so whatever happens later, and a load issued then (for example
  from inside draw) only registers a request whose completion runs no code of the
  runtime: it writes neither \<^verbatim>\<open>_preloadCount\<close> nor \<^verbatim>\<open>'preload-count'\<close> and
  invokes no callback. When the preload callback throws, whatever the exception, the
  wrappers are left installed: they stay so whatever happens later, and a load issued
  then goes through \<^verbatim>\<open>_preload\<close>.
\<close>

theorem C9_restored:
  assumes "originals s" and "\<not> awaiting_load s" and "truthy (userPreload s)"
  shows "(fst (p5_start now s) = None \<longrightarrow>
            restored (run es (snd (p5_start now s))) \<and>
            inst (snd (exec_action (Load f path) (run es (snd (p5_start now s)))))
              = inst (run es (snd (p5_start now s))) \<and>
            win (snd (exec_action (Load f path) (run es (snd (p5_start now s)))))
              = win (run es (snd (p5_start now s))) \<and>
            trace (snd (exec_action (Load f path) (run es (snd (p5_start now s)))))
              = trace (run es (snd (p5_start now s))) \<and>
            pending (snd (exec_action (Load f path) (run es (snd (p5_start now s)))))
              = pending (run es (snd (p5_start now s))) @ [Request f path False] \<and>
            handle (Complete (length (pending (run es (snd (p5_start now s))))) later)
              (snd (exec_action (Load f path) (run es (snd (p5_start now s)))))
              = (None, run es (snd (p5_start now s)))) \<and>
         (fst (p5_start now s) \<noteq> None \<longrightarrow>
            installed (snd (p5_start now s)) \<and>
            installed (run es (snd (p5_start now s))) \<and>
            exec_action (Load f path) (run es (snd (p5_start now s)))
              = p5_preload f path (run es (snd (p5_start now s))))"
proof (intro conjI impI)
  let ?t = "run es (snd (p5_start now s))"
  have a: "\<not> awaiting_load (snd (p5_start now s))"
    using assms(2) by simp
  {
    assume ok: "fst (p5_start now s) = None"
    have "restored (snd (p5_start now s))"
      using assms(1,3) ok by (rule start_restores)
    then show r: "restored ?t" using a by (rule restored_run)
    have l: "exec_action (Load f path) ?t = (None, original_loader f path False ?t)"
      using r by (rule restored_load)
    have "original_loader f path False ?t\<lparr>pending := pending ?t\<rparr> = ?t"
      by (simp add: original_loader_def)
    then have c: "handle (Complete (length (pending ?t)) later) (original_loader f path False ?t)
        = (None, ?t)"
      by (simp add: remove_nth_def)
    show "inst (snd (exec_action (Load f path) ?t)) = inst ?t"
      "win (snd (exec_action (Load f path) ?t)) = win ?t"
      "trace (snd (exec_action (Load f path) ?t)) = trace ?t"
      "pending (snd (exec_action (Load f path) ?t)) = pending ?t @ [Request f path False]"
      "handle (Complete (length (pending ?t)) later) (snd (exec_action (Load f path) ?t))
         = (None, ?t)"
      unfolding l using c by simp_all
  }
  {
    assume ex: "fst (p5_start now s) \<noteq> None"
    show i: "installed (snd (p5_start now s))"
      using assms(3) ex by (rule start_throws)
    then show j: "installed ?t" using a by (rule installed_run)
    then show "exec_action (Load f path) ?t = p5_preload f path ?t"
      by (rule installed_load)
  }
qed

theorem C9_restored_witness:
  "originals (bind_instance page one_load (created page VUndefined)) \<and>
   \<not> awaiting_load (bind_instance page one_load (created page VUndefined)) \<and>
   truthy (userPreload (bind_instance page one_load (created page VUndefined))) \<and>
   fst (p5_start 1000 (bind_instance page one_load (created page VUndefined))) = None \<and>
   restored (run [Complete 0 1010]
     (snd (p5_start 1000 (bind_instance page one_load (created page VUndefined))))) \<and>
   pending (run [Complete 0 1010]
     (snd (p5_start 1000 (bind_instance page one_load (created page VUndefined)))))
     = [Request LoadJSON ''b'' False] \<and>
   pending (snd (exec_action (Load LoadXML ''c'') (run [Complete 0 1010]
     (snd (p5_start 1000 (bind_instance page one_load (created page VUndefined)))))))
     = [Request LoadJSON ''b'' False, Request LoadXML ''c'' False] \<and>
   originals (bind_instance page throwing_preload (created page VUndefined)) \<and>
   \<not> awaiting_load (bind_instance page throwing_preload (created page VUndefined)) \<and>
   truthy (userPreload (bind_instance page throwing_preload (created page VUndefined))) \<and>
   fst (p5_start 1000 (bind_instance page throwing_preload (created page VUndefined)))
     = Some UserError \<and>
   installed (run [Complete 0 1010]
     (snd (p5_start 1000 (bind_instance page throwing_preload (created page VUndefined)))))"
proof -
  let ?s = "bind_instance page one_load (created page VUndefined)"
  let ?t = "run [Complete 0 1010] (snd (p5_start 1000 ?s))"
  let ?x = "bind_instance page throwing_preload (created page VUndefined)"
  have h: "originals ?s" "\<not> awaiting_load ?s" "truthy (userPreload ?s)"
    by (simp_all add: originals_def userPreload_def loaders_def lookups lifecycle sketches)
  have n: "fst (p5_start 1000 ?s) = None"
    by (simp add: lookups lifecycle sketches)
  have p: "pending ?t = [Request LoadJSON ''b'' False]"
    by (simp add: lookups lifecycle sketches)
  have k: "originals ?x" "\<not> awaiting_load ?x" "truthy (userPreload ?x)"
    by (simp_all add: originals_def userPreload_def loaders_def lookups lifecycle sketches)
  have e: "fst (p5_start 1000 ?x) = Some UserError"
    by (simp add: lookups lifecycle sketches)
  from C9_restored [OF h, of 1000 "[Complete 0 1010]" LoadXML "''c''"] n p
  have 1: "restored ?t"
    "pending (snd (exec_action (Load LoadXML ''c'') ?t))
       = [Request LoadJSON ''b'' False, Request LoadXML ''c'' False]"
    by simp_all
  from C9_restored [OF k, of 1000 "[Complete 0 1010]"] e
  have 2: "installed (run [Complete 0 1010] (snd (p5_start 1000 ?x)))"
    by simp
  from h n p 1 k e 2 show ?thesis by simp
qed

subsection \<open>C1: setup after the last completion, once\<close>

lemma preloadCount_run:
  "\<not> awaiting_load s \<Longrightarrow> this_prop (run es s) PreloadCount = this_prop s PreloadCount"
proof -
  assume "\<not> awaiting_load s"
  then have "only (insert FrameCount loop_keys) s (run es s)" by (rule only_run)
  then show ?thesis
    by (rule only_this_prop) (simp add: loop_keys_def)
qed

text \<open>
  C1 fails on the code. \<^verbatim>\<open>_preload\<close> and its completion handler store the counter
  under the name \<^verbatim>\<open>'preload-count'\<close> and read it under the name
  \<^verbatim>\<open>_preloadCount\<close>, which nothing ever writes: it is 0 at every point of every run,
  so the test \<^verbatim>\<open>context._preloadCount === 0\<close> succeeds at every completion. With two
  requests issued by the preload callback, setup runs at the first completion, while the
  second request is still outstanding, and again at the second.
\<close>

theorem C1_setup_at_every_completion:
  "pending (booted page (Some two_loads))
     = [Request LoadJSON ''a'' True, Request LoadImage ''b'' True] \<and>
   invocations Setup (booted page (Some two_loads)) = 0 \<and>
   this_prop (booted page (Some two_loads)) PreloadDashCount = VNum (Fin 1) \<and>
   this_prop (run es (booted page (Some two_loads))) PreloadCount = VNum (Fin 0) \<and>
   pending (run [Complete 0 1010] (booted page (Some two_loads)))
     = [Request LoadImage ''b'' True] \<and>
   invocations Setup (run [Complete 0 1010] (booted page (Some two_loads))) = 1 \<and>
   invocations Setup (run [Complete 0 1010, Complete 0 1020] (booted page (Some two_loads))) = 2"
proof -
  let ?b = "booted page (Some two_loads)"
  have a: "\<not> awaiting_load ?b" and c: "this_prop ?b PreloadCount = VNum (Fin 0)"
    by (simp_all add: lookups lifecycle sketches)
  have "this_prop (run es ?b) PreloadCount = VNum (Fin 0)"
    using preloadCount_run [OF a, of es] c by simp
  moreover have "pending ?b = [Request LoadJSON ''a'' True, Request LoadImage ''b'' True]"
    "invocations Setup ?b = 0" "this_prop ?b PreloadDashCount = VNum (Fin 1)"
    by (simp_all add: lookups lifecycle sketches)
  moreover have "pending (run [Complete 0 1010] ?b) = [Request LoadImage ''b'' True]"
    "invocations Setup (run [Complete 0 1010] ?b) = 1"
    by (simp_all add: lookups lifecycle sketches)
  moreover have "invocations Setup (run [Complete 0 1010, Complete 0 1020] ?b) = 2"
    by (simp add: lookups lifecycle sketches)
  ultimately show ?thesis by simp
qed


subsection \<open>C2: a preload callback that issues no request\<close>

lemma idle_step: "idle s \<Longrightarrow> idle (step e s) \<and> invocations n (step e s) = invocations n s"
proof (cases e)
  case (Input ev)
  assume i: "idle s"
  then have "this_prop s (On ev) = VUndefined" by (simp add: idle_def)
  then have "handle e s = (if ev \<in> set (listeners s) then (Some TypeError, s) else (None, s))"
    by (simp add: Input listener_def)
  with i show ?thesis
    by (simp add: step_def idle_def)
qed (simp_all add: step_def idle_def)

lemma idle_run: "idle s \<Longrightarrow> idle (run es s) \<and> invocations n (run es s) = invocations n s"
proof (induction es arbitrary: s)
  case Nil
  then show ?case by simp
next
  case (Cons e es)
  from Cons.prems idle_step [of s e n]
  have 1: "idle (step e s)" and 2: "invocations n (step e s) = invocations n s" by simp_all
  from Cons.IH [OF 1] 2 show ?case by simp
qed

lemma idle_no_loads: "idle (booted page (Some no_loads))"
proof -
  let ?s = "bind_instance page no_loads (created page VUndefined)"
  have b: "booted page (Some no_loads) = snd (p5_start 1000 ?s)"
    by (simp add: booted_def p5_def Let_def page_def)
  have "On ev \<notin> start_keys" for ev
    by (auto simp: start_keys_def loop_keys_def)
  with only_start have "this_prop (snd (p5_start 1000 ?s)) (On ev) = this_prop ?s (On ev)" for ev
    by (rule only_this_prop)
  moreover have "this_prop ?s (On ev) = VUndefined" for ev
    by (simp add: lookups sketches)
  moreover have "pending (booted page (Some no_loads)) = []"
    "intervals (booted page (Some no_loads)) = []"
    "timeouts (booted page (Some no_loads)) = []"
    "\<not> awaiting_load (booted page (Some no_loads))"
    by (simp_all add: lookups lifecycle sketches)
  ultimately show ?thesis
    by (simp add: idle_def b)
qed

text \<open>
  C2 fails on the code. \<^verbatim>\<open>_start\<close> calls the preload callback and restores the
  loaders; it does not look at the counter afterwards. When the callback has issued no
  request there is no completion to come, no timer has been armed and no load event is
  awaited: whatever events follow, neither setup nor draw is ever invoked.
\<close>

theorem C2_zero_requests_never_set_up:
  "trace (booted page (Some no_loads)) = [Invoked Preload] \<and>
   pending (booted page (Some no_loads)) = [] \<and>
   invocations Setup (run es (booted page (Some no_loads))) = 0 \<and>
   invocations Draw (run es (booted page (Some no_loads))) = 0 \<and>
   intervals (run es (booted page (Some no_loads))) = []"
proof -
  let ?b = "booted page (Some no_loads)"
  have t: "trace ?b = [Invoked Preload]" "pending ?b = []"
    by (simp_all add: lookups lifecycle sketches)
  then have 0: "invocations Setup ?b = 0" "invocations Draw ?b = 0"
    by (simp_all add: invocations_def)
  from idle_run [OF idle_no_loads, of es] 0 t show ?thesis
    by (simp add: idle_def)
qed


end
